theory Spec2Isabelle
  imports Main "HOL-Library.Log_Nat"
begin

section \<open>Python values used by the record types\<close>

text \<open>
  The exceptions of the Python source that the modelled functions can raise. A function
  that can raise returns \<open>error + 'a\<close>, with \<open>Inl\<close> for the exception.
  \<open>EnumViolation\<close> and \<open>TruncatedRecord\<close> are the two failures named by the
  specification for the parts of the engine that are not in the source tree.
\<close>

datatype error =
    ValueError
  | IndexError
  | KeyError
  | TypeError
  | AttributeError
  | SyntaxError
  | EnumViolation
  | TruncatedRecord

subsection \<open>Floats\<close>

text \<open>
  A Python \<open>float\<close> is an IEEE-754 binary64 number. A finite one is \<open>m * 2 ^ e\<close>
  for integers \<open>m\<close> and \<open>e\<close>; \<open>Finite m e\<close> stands for that number and is kept
  in the form where \<open>m\<close> is odd, or \<open>m = 0\<close> and \<open>e = 0\<close> (so that equal numbers are
  equal terms; the sign of zero is not kept, as Python's \<open>==\<close> does not see it).
  The binary64 numbers are those with \<open>\<bar>m\<bar> < 2 ^ 53\<close>, \<open>- 1074 \<le> e\<close> and
  \<open>\<bar>m * 2 ^ e\<bar> < 2 ^ 1024\<close>.
\<close>

datatype pyfloat = Finite int int | PosInf | NegInf | NaN

function strip_zeros :: "int \<Rightarrow> int \<Rightarrow> int \<times> int" where
  "strip_zeros m e =
     (if m = 0 then (0, 0) else if odd m then (m, e) else strip_zeros (m div 2) (e + 1))"
  by pat_completeness auto
termination
  by (relation "measure (\<lambda>(m, e). nat \<bar>m\<bar>)") auto

declare strip_zeros.simps [simp del]

definition normal_float :: "int \<Rightarrow> int \<Rightarrow> pyfloat" where
  "normal_float m e = (case strip_zeros m e of (m', e') \<Rightarrow> Finite m' e')"

text \<open>
  \<open>round_to_double s e\<close> is the binary64 number nearest to \<open>s * 2 ^ e\<close> (round to
  nearest, ties to even, the default rounding of IEEE-754 that Python uses): the \<open>k\<close>
  low bits of the magnitude that do not fit in 53 bits, or lie below \<open>2 ^ - 1074\<close>,
  are rounded away; a result of magnitude \<open>2 ^ 1024\<close> or more is an infinity.
\<close>

definition round_to_double :: "int \<Rightarrow> int \<Rightarrow> pyfloat" where
  "round_to_double s e =
     (let m = \<bar>s\<bar>;
          k = nat (max (bitlen m - 53) (- 1074 - e));
          q = m div 2 ^ k;
          r = m mod 2 ^ k;
          q' = (if 2 ^ k < 2 * r \<or> (2 * r = 2 ^ k \<and> odd q) then q + 1 else q)
      in if q' \<noteq> 0 \<and> 1024 < bitlen q' + (e + int k)
         then (if s < 0 then NegInf else PosInf)
         else normal_float (if s < 0 then - q' else q') (e + int k))"

definition exact_sum :: "int \<Rightarrow> int \<Rightarrow> int \<Rightarrow> int \<Rightarrow> int \<times> int" where
  "exact_sum m1 e1 m2 e2 =
     (let e = min e1 e2 in (m1 * 2 ^ nat (e1 - e) + m2 * 2 ^ nat (e2 - e), e))"

text \<open>Python's \<open>x + y\<close> on floats.\<close>

fun float_add :: "pyfloat \<Rightarrow> pyfloat \<Rightarrow> pyfloat" where
  "float_add (Finite m1 e1) (Finite m2 e2) =
     (case exact_sum m1 e1 m2 e2 of (s, e) \<Rightarrow> round_to_double s e)"
| "float_add NaN _ = NaN"
| "float_add _ NaN = NaN"
| "float_add PosInf NegInf = NaN"
| "float_add NegInf PosInf = NaN"
| "float_add PosInf _ = PosInf"
| "float_add _ PosInf = PosInf"
| "float_add NegInf _ = NegInf"
| "float_add _ NegInf = NegInf"

text \<open>Python's \<open>x < y\<close> on floats: every comparison with a NaN is false.\<close>

fun float_less :: "pyfloat \<Rightarrow> pyfloat \<Rightarrow> bool" where
  "float_less (Finite m1 e1) (Finite m2 e2) =
     (let e = min e1 e2 in m1 * 2 ^ nat (e1 - e) < m2 * 2 ^ nat (e2 - e))"
| "float_less NaN _ = False"
| "float_less _ NaN = False"
| "float_less NegInf NegInf = False"
| "float_less NegInf _ = True"
| "float_less _ NegInf = False"
| "float_less PosInf _ = False"
| "float_less _ PosInf = True"

text \<open>Python's \<open>x <= y\<close> on floats.\<close>

definition float_le :: "pyfloat \<Rightarrow> pyfloat \<Rightarrow> bool" where
  "float_le x y = (x \<noteq> NaN \<and> y \<noteq> NaN \<and> \<not> float_less y x)"

section \<open>Diagnostics\<close>

text \<open>
  The source reports through \<open>logging.error\<close>. The log is part of the state: a function
  that logs takes the log and returns it extended. One constructor stands for each
  message; its arguments are the values that the message formats.
  \<^item> \<open>MissingRequiredField\<close> and \<open>EnumViolationOf\<close>: the two conditions that the
    specification gives to the generic validation pass;
  \<^item> \<open>InvalidTimeBounds\<close>: \<^verbatim>\<open>Invalid time processing bounds TStartProc ({}) > TEndProc ({})\<close>;
  \<^item> \<open>InvalidFrequencyBounds\<close>: \<^verbatim>\<open>Invalid frequency bounds MinProc ({}) > MaxProc ({})\<close>;
  \<^item> \<open>SkippedEntry\<close>: \<^verbatim>\<open>Parsing RemapLUT is likely compromised. Got entry {}, which we are skipping.\<close>
\<close>

datatype diagnostic =
    MissingRequiredField string
  | EnumViolationOf string string
  | InvalidTimeBounds pyfloat pyfloat
  | InvalidFrequencyBounds pyfloat pyfloat
  | SkippedEntry string

fun is_cross_field :: "diagnostic \<Rightarrow> bool" where
  "is_cross_field (InvalidTimeBounds _ _) = True"
| "is_cross_field (InvalidFrequencyBounds _ _) = True"
| "is_cross_field _ = False"

section \<open>The record types of ImageFormation.py\<close>

text \<open>
  Each class is a record of its descriptors. A descriptor holds a value or \<open>None\<close>, so
  every field is an \<open>option\<close>. A complex number is its real and imaginary part, a
  parameters collection is the ordered list of its (name, value) pairs, and a date is
  the count of microseconds that \<open>numpy.datetime64\<close> holds.
\<close>

record RcvChanProcType =
  NumChanProc :: "int option"
  PRFScaleFactor :: "pyfloat option"
  ChanIndices :: "int list option"

record TxFrequencyProcType =
  MinProc :: "pyfloat option"
  MaxProc :: "pyfloat option"

record ProcessingType =
  Type :: "string option"
  Applied :: "bool option"
  Parameters :: "(string \<times> string) list option"

text \<open>The field \<open>A\<close> of the source is \<open>A_scale\<close> here: a constant named \<open>A\<close> would
  capture that variable name in every later statement.\<close>

record DistortionType =
  CalibrationDate :: "int option"
  A_scale :: "pyfloat option"
  F1 :: "(pyfloat \<times> pyfloat) option"
  F2 :: "(pyfloat \<times> pyfloat) option"
  Q1 :: "(pyfloat \<times> pyfloat) option"
  Q2 :: "(pyfloat \<times> pyfloat) option"
  Q3 :: "(pyfloat \<times> pyfloat) option"
  Q4 :: "(pyfloat \<times> pyfloat) option"
  GainErrorA :: "pyfloat option"
  GainErrorF1 :: "pyfloat option"
  GainErrorF2 :: "pyfloat option"
  PhaseErrorF1 :: "pyfloat option"
  PhaseErrorF2 :: "pyfloat option"

record PolarizationCalibrationType =
  DistortCorrectApplied :: "bool option"
  Distortion :: "DistortionType option"

record ImageFormationType =
  RcvChanProc :: "RcvChanProcType option"
  TxRcvPolarizationProc :: "string option"
  TStartProc :: "pyfloat option"
  TEndProc :: "pyfloat option"
  TxFrequencyProc :: "TxFrequencyProcType option"
  SegmentIdentifier :: "string option"
  ImageFormAlgo :: "string option"
  STBeamComp :: "string option"
  ImageBeamComp :: "string option"
  AzAutofocus :: "string option"
  RgAutofocus :: "string option"
  Processings :: "ProcessingType list option"
  PolarizationCalibration :: "PolarizationCalibrationType option"

text \<open>
  The sibling record that \<open>_derive_tx_frequency_proc\<close> reads is declared in
  RadarCollection.py, outside the source tree. The hook reads \<open>TxFrequency\<close> and, of
  that, \<open>Min\<close> and \<open>Max\<close> (\<open>Min_tx\<close> and \<open>Max_tx\<close> here, \<open>Min\<close> and \<open>Max\<close>
  being constants of HOL); these are the fields of the model.
\<close>

record TxFrequencyType =
  Min_tx :: "pyfloat option"
  Max_tx :: "pyfloat option"

record RadarCollectionType =
  TxFrequency :: "TxFrequencyType option"

subsection \<open>The schema tables\<close>

text \<open>
  \<open>_fields\<close> (\<open>fields_tbl\<close>), \<open>_required\<close> (\<open>required_tbl\<close>) and
  \<open>_collections_tags\<close> of each class, in the order of the source. Each key of
  \<open>_collections_tags\<close> comes with its \<open>array\<close> flag and its \<open>child_tag\<close>.
\<close>

record schema =
  fields_tbl :: "string list"
  required_tbl :: "string list"
  collections_tags :: "(string \<times> bool \<times> string) list"

definition RcvChanProcType_schema :: schema where
  "RcvChanProcType_schema =
     \<lparr>fields_tbl = [''NumChanProc'', ''PRFScaleFactor'', ''ChanIndices''],
      required_tbl = [''NumChanProc'', ''ChanIndices''],
      collections_tags = [(''ChanIndices'', False, ''ChanIndex'')]\<rparr>"

definition TxFrequencyProcType_schema :: schema where
  "TxFrequencyProcType_schema =
     \<lparr>fields_tbl = [''MinProc'', ''MaxProc''],
      required_tbl = [''MinProc'', ''MaxProc''],
      collections_tags = []\<rparr>"

definition ProcessingType_schema :: schema where
  "ProcessingType_schema =
     \<lparr>fields_tbl = [''Type'', ''Applied'', ''Parameters''],
      required_tbl = [''Type'', ''Applied''],
      collections_tags = [(''Parameters'', False, ''Parameter'')]\<rparr>"

definition DistortionType_schema :: schema where
  "DistortionType_schema =
     \<lparr>fields_tbl = [''CalibrationDate'', ''A'', ''F1'', ''F2'', ''Q1'', ''Q2'', ''Q3'', ''Q4'',
        ''GainErrorA'', ''GainErrorF1'', ''GainErrorF2'', ''PhaseErrorF1'', ''PhaseErrorF2''],
      required_tbl = [''A'', ''F1'', ''Q1'', ''Q2'', ''F2'', ''Q3'', ''Q4''],
      collections_tags = []\<rparr>"

definition PolarizationCalibrationType_schema :: schema where
  "PolarizationCalibrationType_schema =
     \<lparr>fields_tbl = [''DistortCorrectApplied'', ''Distortion''],
      required_tbl = [''DistortCorrectApplied'', ''Distortion''],
      collections_tags = []\<rparr>"

definition ImageFormationType_schema :: schema where
  "ImageFormationType_schema =
     \<lparr>fields_tbl = [''RcvChanProc'', ''TxRcvPolarizationProc'', ''TStartProc'', ''TEndProc'',
        ''TxFrequencyProc'', ''SegmentIdentifier'', ''ImageFormAlgo'', ''STBeamComp'',
        ''ImageBeamComp'', ''AzAutofocus'', ''RgAutofocus'', ''Processings'',
        ''PolarizationCalibration''],
      required_tbl = [''RcvChanProc'', ''TxRcvPolarizationProc'', ''TStartProc'', ''TEndProc'',
        ''TxFrequencyProc'', ''ImageFormAlgo'', ''STBeamComp'', ''ImageBeamComp'',
        ''AzAutofocus'', ''RgAutofocus''],
      collections_tags = [(''Processings'', False, ''Processing'')]\<rparr>"

subsection \<open>The value sets of the enumerated fields of ImageFormationType\<close>

definition DUAL_POLARIZATION_VALUES :: "string list" where
  "DUAL_POLARIZATION_VALUES =
     [''V:V'', ''V:H'', ''V:RHC'', ''V:LHC'',
      ''H:V'', ''H:H'', ''H:RHC'', ''H:LHC'',
      ''RHC:V'', ''RHC:H'', ''RHC:RHC'', ''RHC:LHC'',
      ''LHC:V'', ''LHC:H'', ''LHC:RHC'', ''LHC:LHC'',
      ''OTHER'', ''UNKNOWN'']"

definition IMG_FORM_ALGO_VALUES :: "string list" where
  "IMG_FORM_ALGO_VALUES = [''PFA'', ''RMA'', ''RGAZCOMP'', ''OTHER'']"

definition ST_BEAM_COMP_VALUES :: "string list" where
  "ST_BEAM_COMP_VALUES = [''NO'', ''GLOBAL'', ''SV'']"

definition IMG_BEAM_COMP_VALUES :: "string list" where
  "IMG_BEAM_COMP_VALUES = [''NO'', ''SV'']"

definition AZ_AUTOFOCUS_VALUES :: "string list" where
  "AZ_AUTOFOCUS_VALUES = ST_BEAM_COMP_VALUES"

definition RG_AUTOFOCUS_VALUES :: "string list" where
  "RG_AUTOFOCUS_VALUES = ST_BEAM_COMP_VALUES"


section \<open>The engine behind the record types\<close>

text \<open>
  Modelled from the spec: \<open>Serializable._basic_validity_check\<close>, which both validity
  checks of ImageFormation.py call through \<open>super\<close>, is declared in base.py, outside
  the source tree. Section 4.5 of the specification gives it: for every name in
  \<open>required\<close>, absent gives \<open>MissingRequiredField(name)\<close>; for every enumerated field
  present, invalid gives \<open>EnumViolation\<close>; the record is basically valid iff nothing
  was reported. \<open>attrs\<close> says which attribute of the node is present, \<open>enums\<close> lists
  the enumerated fields with their value sets and current values.
\<close>

definition Serializable_basic_validity_check ::
  "schema \<Rightarrow> (string \<times> bool) list \<Rightarrow> (string \<times> string list \<times> string option) list
     \<Rightarrow> diagnostic list \<Rightarrow> bool \<times> diagnostic list" where
  "Serializable_basic_validity_check sch attrs enums lg =
     (let missing = map MissingRequiredField
            (filter (\<lambda>n. map_of attrs n \<noteq> Some True) (required_tbl sch));
          invalid = concat (map (\<lambda>(n, vals, v).
            case v of None \<Rightarrow> [] | Some s \<Rightarrow> if s \<in> set vals then [] else [EnumViolationOf n s]) enums)
      in (missing = [] \<and> invalid = [], lg @ missing @ invalid))"

text \<open>
  Modelled from the spec: \<open>_StringEnumDescriptor\<close> is declared in base.py, outside the
  source tree. Sections 4.1, 4.2 and 7 give its assignment: any string of the value set
  is stored; a string outside it fails with \<open>EnumViolation\<close> in strict mode and is
  stored in lenient mode, where the validation pass reports it. \<open>None\<close> clears the
  field.
\<close>

definition StringEnumDescriptor_set :: "bool \<Rightarrow> string list \<Rightarrow> string option \<Rightarrow> error + string option" where
  "StringEnumDescriptor_set strict vals v =
     (case v of
        None \<Rightarrow> Inr None
      | Some s \<Rightarrow>
          if s \<in> set vals then Inr (Some s)
          else if strict then Inl EnumViolation
          else Inr (Some s))"

text \<open>
  An enumerated field of a record type \<open>'n\<close>: the name and the value set that its
  \<open>_StringEnumDescriptor\<close> declares, and how the attribute is read and written.
\<close>

type_synonym 'n enum_field = "string \<times> string list \<times> ('n \<Rightarrow> string option) \<times> (string option \<Rightarrow> 'n \<Rightarrow> 'n)"

definition assign_enum :: "bool \<Rightarrow> 'n enum_field \<Rightarrow> 'n \<Rightarrow> string option \<Rightarrow> error + 'n" where
  "assign_enum strict fld self v =
     (case fld of (name, vals, getter, setter) \<Rightarrow>
        (case StringEnumDescriptor_set strict vals v of
           Inl e \<Rightarrow> Inl e
         | Inr x \<Rightarrow> Inr (setter x self)))"

definition enum_values_of :: "'n enum_field list \<Rightarrow> 'n \<Rightarrow> (string \<times> string list \<times> string option) list" where
  "enum_values_of flds self = map (\<lambda>(name, vals, getter, setter). (name, vals, getter self)) flds"

section \<open>The operations of ImageFormation.py\<close>

subsection \<open>TxFrequencyProcType\<close>

definition TxFrequencyProcType_init :: "pyfloat option \<Rightarrow> pyfloat option \<Rightarrow> TxFrequencyProcType" where
  "TxFrequencyProcType_init mn mx = \<lparr>MinProc = mn, MaxProc = mx\<rparr>"

definition TxFrequencyProcType_attrs :: "TxFrequencyProcType \<Rightarrow> (string \<times> bool) list" where
  "TxFrequencyProcType_attrs self =
     [(''MinProc'', MinProc self \<noteq> None), (''MaxProc'', MaxProc self \<noteq> None)]"

text \<open>
  \<^verbatim>\<open>
  def _apply_reference_frequency(self, reference_frequency):
      if self.MinProc is not None:
          self.MinProc += reference_frequency
      if self.MaxProc is not None:
          self.MaxProc += reference_frequency
  \<close>
\<close>

definition TxFrequencyProcType_apply_reference_frequency ::
  "TxFrequencyProcType \<Rightarrow> pyfloat \<Rightarrow> TxFrequencyProcType" where
  "TxFrequencyProcType_apply_reference_frequency self reference_frequency =
     (let self1 = (case MinProc self of
                     None \<Rightarrow> self
                   | Some v \<Rightarrow> self\<lparr>MinProc := Some (float_add v reference_frequency)\<rparr>)
      in (case MaxProc self1 of
            None \<Rightarrow> self1
          | Some v \<Rightarrow> self1\<lparr>MaxProc := Some (float_add v reference_frequency)\<rparr>))"

text \<open>
  \<^verbatim>\<open>
  def _basic_validity_check(self):
      condition = super(TxFrequencyProcType, self)._basic_validity_check()
      if self.MinProc is not None and self.MaxProc is not None and self.MaxProc < self.MinProc:
          logging.error(
              'Invalid frequency bounds MinProc ({}) > MaxProc ({})'.format(self.MinProc, self.MaxProc))
          condition = False
      return condition
  \<close>
  The state is the node and the log; the check returns its condition and the state after.
\<close>

definition TxFrequencyProcType_basic_validity_check ::
  "TxFrequencyProcType \<Rightarrow> diagnostic list \<Rightarrow> bool \<times> TxFrequencyProcType \<times> diagnostic list" where
  "TxFrequencyProcType_basic_validity_check self lg =
     (case Serializable_basic_validity_check TxFrequencyProcType_schema
             (TxFrequencyProcType_attrs self) [] lg of
        (condition, lg1) \<Rightarrow>
          (case MinProc self of
             None \<Rightarrow> (condition, self, lg1)
           | Some mn \<Rightarrow>
               (case MaxProc self of
                  None \<Rightarrow> (condition, self, lg1)
                | Some mx \<Rightarrow>
                    if float_less mx mn
                    then (False, self, lg1 @ [InvalidFrequencyBounds mn mx])
                    else (condition, self, lg1))))"

subsection \<open>ImageFormationType\<close>

definition ImageFormationType_attrs :: "ImageFormationType \<Rightarrow> (string \<times> bool) list" where
  "ImageFormationType_attrs self =
     [(''RcvChanProc'', RcvChanProc self \<noteq> None),
      (''TxRcvPolarizationProc'', TxRcvPolarizationProc self \<noteq> None),
      (''TStartProc'', TStartProc self \<noteq> None),
      (''TEndProc'', TEndProc self \<noteq> None),
      (''TxFrequencyProc'', TxFrequencyProc self \<noteq> None),
      (''SegmentIdentifier'', SegmentIdentifier self \<noteq> None),
      (''ImageFormAlgo'', ImageFormAlgo self \<noteq> None),
      (''STBeamComp'', STBeamComp self \<noteq> None),
      (''ImageBeamComp'', ImageBeamComp self \<noteq> None),
      (''AzAutofocus'', AzAutofocus self \<noteq> None),
      (''RgAutofocus'', RgAutofocus self \<noteq> None),
      (''Processings'', Processings self \<noteq> None),
      (''PolarizationCalibration'', PolarizationCalibration self \<noteq> None)]"

text \<open>The six \<open>_StringEnumDescriptor\<close> declarations of the class.\<close>

definition ImageFormationType_enum_fields :: "ImageFormationType enum_field list" where
  "ImageFormationType_enum_fields =
     [(''TxRcvPolarizationProc'', DUAL_POLARIZATION_VALUES,
         TxRcvPolarizationProc, \<lambda>v self. self\<lparr>TxRcvPolarizationProc := v\<rparr>),
      (''ImageFormAlgo'', IMG_FORM_ALGO_VALUES,
         ImageFormAlgo, \<lambda>v self. self\<lparr>ImageFormAlgo := v\<rparr>),
      (''STBeamComp'', ST_BEAM_COMP_VALUES,
         STBeamComp, \<lambda>v self. self\<lparr>STBeamComp := v\<rparr>),
      (''ImageBeamComp'', IMG_BEAM_COMP_VALUES,
         ImageBeamComp, \<lambda>v self. self\<lparr>ImageBeamComp := v\<rparr>),
      (''AzAutofocus'', AZ_AUTOFOCUS_VALUES,
         AzAutofocus, \<lambda>v self. self\<lparr>AzAutofocus := v\<rparr>),
      (''RgAutofocus'', RG_AUTOFOCUS_VALUES,
         RgAutofocus, \<lambda>v self. self\<lparr>RgAutofocus := v\<rparr>)]"

text \<open>
  Reading or writing an attribute of \<open>self.TxFrequencyProc\<close> when that is \<open>None\<close>
  raises \<open>AttributeError\<close>.
\<close>

definition get_MinProc :: "TxFrequencyProcType option \<Rightarrow> error + pyfloat option" where
  "get_MinProc p = (case p of None \<Rightarrow> Inl AttributeError | Some t \<Rightarrow> Inr (MinProc t))"

definition get_MaxProc :: "TxFrequencyProcType option \<Rightarrow> error + pyfloat option" where
  "get_MaxProc p = (case p of None \<Rightarrow> Inl AttributeError | Some t \<Rightarrow> Inr (MaxProc t))"

definition set_MinProc :: "TxFrequencyProcType option \<Rightarrow> pyfloat option \<Rightarrow> error + TxFrequencyProcType option" where
  "set_MinProc p v = (case p of None \<Rightarrow> Inl AttributeError | Some t \<Rightarrow> Inr (Some (t\<lparr>MinProc := v\<rparr>)))"

definition set_MaxProc :: "TxFrequencyProcType option \<Rightarrow> pyfloat option \<Rightarrow> error + TxFrequencyProcType option" where
  "set_MaxProc p v = (case p of None \<Rightarrow> Inl AttributeError | Some t \<Rightarrow> Inr (Some (t\<lparr>MaxProc := v\<rparr>)))"

text \<open>
  \<^verbatim>\<open>
  def _derive_tx_frequency_proc(self, RadarCollection):
      if RadarCollection is not None and RadarCollection.TxFrequency is not None and \
              RadarCollection.TxFrequency.Min is not None and RadarCollection.TxFrequency.Max is not None:
          # this is based on the assumption that the entire transmitted bandwidth was processed.
          if self.TxFrequencyProc is not None:
              self.TxFrequencyProc = TxFrequencyProcType(
                  MinProc=RadarCollection.TxFrequency.Min, MaxProc=RadarCollection.TxFrequency.Max)
              # how would it make sense to set only one end?
          elif self.TxFrequencyProc.MinProc is None:
              self.TxFrequencyProc.MinProc = RadarCollection.TxFrequency.Min
          elif self.TxFrequencyProc.MaxProc is None:
              self.TxFrequencyProc.MaxProc = RadarCollection.TxFrequency.Max
  \<close>
  The hook returns the node after, or the exception that it raises.
\<close>

definition derive_body :: "ImageFormationType \<Rightarrow> pyfloat \<Rightarrow> pyfloat \<Rightarrow> error + ImageFormationType" where
  "derive_body self mn mx =
     (if TxFrequencyProc self \<noteq> None then
        Inr (self\<lparr>TxFrequencyProc := Some (TxFrequencyProcType_init (Some mn) (Some mx))\<rparr>)
      else
        (case get_MinProc (TxFrequencyProc self) of
           Inl e \<Rightarrow> Inl e
         | Inr cur_min \<Rightarrow>
             if cur_min = None then
               (case set_MinProc (TxFrequencyProc self) (Some mn) of
                  Inl e \<Rightarrow> Inl e
                | Inr p \<Rightarrow> Inr (self\<lparr>TxFrequencyProc := p\<rparr>))
             else
               (case get_MaxProc (TxFrequencyProc self) of
                  Inl e \<Rightarrow> Inl e
                | Inr cur_max \<Rightarrow>
                    if cur_max = None then
                      (case set_MaxProc (TxFrequencyProc self) (Some mx) of
                         Inl e \<Rightarrow> Inl e
                       | Inr p \<Rightarrow> Inr (self\<lparr>TxFrequencyProc := p\<rparr>))
                    else Inr self)))"

definition derive_tx_frequency_proc ::
  "ImageFormationType \<Rightarrow> RadarCollectionType option \<Rightarrow> error + ImageFormationType" where
  "derive_tx_frequency_proc self RadarCollection =
     (case RadarCollection of
        None \<Rightarrow> Inr self
      | Some rc \<Rightarrow>
          (case TxFrequency rc of
             None \<Rightarrow> Inr self
           | Some tf \<Rightarrow>
               (case Min_tx tf of
                  None \<Rightarrow> Inr self
                | Some mn \<Rightarrow>
                    (case Max_tx tf of
                       None \<Rightarrow> Inr self
                     | Some mx \<Rightarrow> derive_body self mn mx))))"

text \<open>
  \<^verbatim>\<open>
  def _apply_reference_frequency(self, reference_frequency):
      if self.TxFrequencyProc is not None:
          self.TxFrequencyProc._apply_reference_frequency(reference_frequency)
  \<close>
\<close>

definition ImageFormationType_apply_reference_frequency ::
  "ImageFormationType \<Rightarrow> pyfloat \<Rightarrow> ImageFormationType" where
  "ImageFormationType_apply_reference_frequency self reference_frequency =
     (case TxFrequencyProc self of
        None \<Rightarrow> self
      | Some t \<Rightarrow>
          self\<lparr>TxFrequencyProc :=
            Some (TxFrequencyProcType_apply_reference_frequency t reference_frequency)\<rparr>)"

text \<open>
  \<^verbatim>\<open>
  def _basic_validity_check(self):
      condition = super(ImageFormationType, self)._basic_validity_check()
      if self.TStartProc is not None and self.TEndProc is not None and self.TEndProc < self.TStartProc:
          logging.error(
              'Invalid time processing bounds '
              'TStartProc ({}) > TEndProc ({})'.format(self.TStartProc, self.TEndProc))
          condition = False
      return condition
  \<close>
\<close>

definition ImageFormationType_basic_validity_check ::
  "ImageFormationType \<Rightarrow> diagnostic list \<Rightarrow> bool \<times> ImageFormationType \<times> diagnostic list" where
  "ImageFormationType_basic_validity_check self lg =
     (case Serializable_basic_validity_check ImageFormationType_schema
             (ImageFormationType_attrs self)
             (enum_values_of ImageFormationType_enum_fields self) lg of
        (condition, lg1) \<Rightarrow>
          (case TStartProc self of
             None \<Rightarrow> (condition, self, lg1)
           | Some ts \<Rightarrow>
               (case TEndProc self of
                  None \<Rightarrow> (condition, self, lg1)
                | Some te \<Rightarrow>
                    if float_less te ts
                    then (False, self, lg1 @ [InvalidTimeBounds ts te])
                    else (condition, self, lg1))))"


text \<open>\<open>ImageFormationType()\<close>: the constructor with every parameter at its default.\<close>

definition ImageFormationType_empty :: ImageFormationType where
  "ImageFormationType_empty =
     \<lparr>RcvChanProc = None, TxRcvPolarizationProc = None, TStartProc = None, TEndProc = None,
      TxFrequencyProc = None, SegmentIdentifier = None, ImageFormAlgo = None, STBeamComp = None,
      ImageBeamComp = None, AzAutofocus = None, RgAutofocus = None, Processings = None,
      PolarizationCalibration = None\<rparr>"

section \<open>Python strings\<close>

text \<open>
  A \<open>str\<close> is a list of characters. \<open>is_space\<close> is the whitespace of \<open>str.split()\<close>,
  \<open>str.strip()\<close> and \<open>int()\<close> among the first 256 code points.
\<close>

definition is_space :: "char \<Rightarrow> bool" where
  "is_space c = ((of_char c :: nat) \<in> set [9, 10, 11, 12, 13, 28, 29, 30, 31, 32, 133, 160])"

definition is_digit :: "char \<Rightarrow> bool" where
  "is_digit c = (48 \<le> (of_char c :: nat) \<and> (of_char c :: nat) \<le> 57)"

definition digit_val :: "char \<Rightarrow> nat" where
  "digit_val c = of_char c - 48"

definition digit_char :: "nat \<Rightarrow> char" where
  "digit_char d = char_of (48 + d)"

text \<open>\<open>s.split()\<close>: the maximal runs of characters that are not whitespace.\<close>

fun split_ws :: "string \<Rightarrow> string \<Rightarrow> string list" where
  "split_ws cur [] = (if cur = [] then [] else [cur])"
| "split_ws cur (c # cs) =
     (if is_space c then (if cur = [] then split_ws [] cs else cur # split_ws [] cs)
      else split_ws (cur @ [c]) cs)"

definition py_split :: "string \<Rightarrow> string list" where
  "py_split s = split_ws [] s"

text \<open>\<open>s.split(sep)\<close> for a separator of one character: empty pieces are kept.\<close>

fun split_on :: "char \<Rightarrow> string \<Rightarrow> string \<Rightarrow> string list" where
  "split_on sep cur [] = [cur]"
| "split_on sep cur (c # cs) =
     (if c = sep then cur # split_on sep [] cs else split_on sep (cur @ [c]) cs)"

definition py_split_sep :: "char \<Rightarrow> string \<Rightarrow> string list" where
  "py_split_sep sep s = split_on sep [] s"

text \<open>\<open>sep.join(xs)\<close>.\<close>

fun py_join :: "string \<Rightarrow> string list \<Rightarrow> string" where
  "py_join sep [] = []"
| "py_join sep [x] = x"
| "py_join sep (x # y # ys) = x @ sep @ py_join sep (y # ys)"

definition py_strip :: "string \<Rightarrow> string" where
  "py_strip s = rev (dropWhile is_space (rev (dropWhile is_space s)))"

text \<open>
  \<open>int(s)\<close> on a string: surrounding whitespace is dropped, one sign is allowed, then
  decimal digits, with single underscores between digits; anything else is a
  \<open>ValueError\<close>. \<open>parse_digits acc after_digit s\<close> reads the digits; \<open>after_digit\<close>
  says that the character before was a digit.
\<close>

fun parse_digits :: "nat \<Rightarrow> bool \<Rightarrow> string \<Rightarrow> nat option" where
  "parse_digits acc after_digit [] = (if after_digit then Some acc else None)"
| "parse_digits acc after_digit (c # cs) =
     (if is_digit c then parse_digits (10 * acc + digit_val c) True cs
      else if c = CHR ''_'' \<and> after_digit then parse_digits acc False cs
      else None)"

definition py_int :: "string \<Rightarrow> error + int" where
  "py_int s =
     (case py_strip s of
        [] \<Rightarrow> Inl ValueError
      | c # cs \<Rightarrow>
          if c = CHR ''-'' then
            (case parse_digits 0 False cs of None \<Rightarrow> Inl ValueError | Some n \<Rightarrow> Inr (- int n))
          else if c = CHR ''+'' then
            (case parse_digits 0 False cs of None \<Rightarrow> Inl ValueError | Some n \<Rightarrow> Inr (int n))
          else
            (case parse_digits 0 False (c # cs) of None \<Rightarrow> Inl ValueError | Some n \<Rightarrow> Inr (int n)))"

text \<open>\<open>str(n)\<close> and \<open>'{:d}'.format(n)\<close> for a natural number.\<close>

function str_nat :: "nat \<Rightarrow> string" where
  "str_nat n = (if n < 10 then [digit_char n] else str_nat (n div 10) @ [digit_char (n mod 10)])"
  by pat_completeness auto
termination
  by (relation "measure id") auto

declare str_nat.simps [simp del]

text \<open>\<open>[int(el) for el in entry]\<close>: each character of \<open>entry\<close> is a string of length one;
  the first that is not a number raises.\<close>

fun int_each :: "string \<Rightarrow> error + int list" where
  "int_each [] = Inr []"
| "int_each (el # rest) =
     (case py_int [el] of
        Inl e \<Rightarrow> Inl e
      | Inr v \<Rightarrow> (case int_each rest of Inl e \<Rightarrow> Inl e | Inr vs \<Rightarrow> Inr (v # vs)))"


section \<open>numpy arrays\<close>

text \<open>
  A \<open>numpy.ndarray\<close> is the name of its dtype, its shape and its entries in row-major
  order, as many as the product of the shape. Entries of the unsigned dtypes are
  natural numbers.
\<close>

record ndarray =
  dtype_name :: string
  shape :: "nat list"
  entries :: "nat list"

definition ndim :: "ndarray \<Rightarrow> nat" where
  "ndim a = length (shape a)"

text \<open>\<open>a.shape[i]\<close>: an index beyond the tuple raises \<open>IndexError\<close>.\<close>

definition shape_at :: "ndarray \<Rightarrow> nat \<Rightarrow> error + nat" where
  "shape_at a i = (if i < length (shape a) then Inr (shape a ! i) else Inl IndexError)"

text \<open>\<open>numpy.zeros((dim1, dim2), dtype=numpy.uint16)\<close>: a negative dimension is refused.\<close>

definition numpy_zeros_uint16 :: "int \<Rightarrow> nat \<Rightarrow> error + ndarray" where
  "numpy_zeros_uint16 dim1 dim2 =
     (if dim1 < 0 then Inl ValueError
      else Inr \<lparr>dtype_name = ''uint16'', shape = [nat dim1, dim2],
                entries = replicate (nat dim1 * dim2) 0\<rparr>)"

text \<open>
  \<open>arr[i, :] = vals\<close> on a two-dimensional \<open>uint16\<close> array, \<open>vals\<close> a list of Python
  integers: a row beyond the first dimension raises \<open>IndexError\<close>, a list that is
  neither of the row's length nor of length one cannot be broadcast
  (\<open>ValueError\<close>), and the integers are stored modulo \<open>2 ^ 16\<close>.
\<close>

definition set_row :: "ndarray \<Rightarrow> nat \<Rightarrow> int list \<Rightarrow> error + ndarray" where
  "set_row arr i vals =
     (case shape arr of
        [rows, cols] \<Rightarrow>
          if rows \<le> i then Inl IndexError
          else if length vals \<noteq> cols \<and> length vals \<noteq> 1 then Inl ValueError
          else
            (let row = (if length vals = cols then map (\<lambda>v. nat (v mod 65536)) vals
                        else replicate cols (nat (hd vals mod 65536)))
             in Inr (arr\<lparr>entries := take (i * cols) (entries arr) @ row
                                      @ drop (i * cols + cols) (entries arr)\<rparr>))
      | _ \<Rightarrow> Inl IndexError)"

text \<open>\<open>numpy.max(arr)\<close>: an array without entries raises \<open>ValueError\<close>.\<close>

definition numpy_max :: "ndarray \<Rightarrow> error + nat" where
  "numpy_max arr = (if entries arr = [] then Inl ValueError else Inr (foldr max (entries arr) 0))"

text \<open>\<open>numpy.cast[numpy.uint8](arr)\<close>.\<close>

definition cast_uint8 :: "ndarray \<Rightarrow> ndarray" where
  "cast_uint8 arr = arr\<lparr>dtype_name := ''uint8'', entries := map (\<lambda>v. v mod 256) (entries arr)\<rparr>"

text \<open>The rows of a two-dimensional array, as iteration over it yields them.\<close>

definition ndarray_rows :: "ndarray \<Rightarrow> nat list list" where
  "ndarray_rows a =
     (let cols = shape a ! 1 in map (\<lambda>i. take cols (drop (i * cols) (entries a))) [0..<shape a ! 0])"

text \<open>
  A list or tuple given where an array is expected holds integers or further lists.
  \<open>numpy.array(value, dtype=numpy.uint8)\<close> takes the shape of the nesting, refuses a
  ragged nesting with \<open>ValueError\<close>, and stores each integer modulo 256 (the numpy 1
  behaviour; \<open>numpy.cast\<close>, which the source uses, does not exist in numpy 2).
\<close>

datatype pyobj = PyInt int | PyList "pyobj list"

fun pyshape :: "pyobj \<Rightarrow> nat list option" where
  "pyshape (PyInt _) = Some []"
| "pyshape (PyList xs) =
     (case map pyshape xs of
        [] \<Rightarrow> Some [0]
      | s # ss \<Rightarrow>
          (case s of
             None \<Rightarrow> None
           | Some sh \<Rightarrow> if list_all (\<lambda>t. t = Some sh) ss then Some (length xs # sh) else None))"

fun pyflat :: "pyobj \<Rightarrow> int list" where
  "pyflat (PyInt i) = [i]"
| "pyflat (PyList xs) = concat (map pyflat xs)"

definition numpy_array_uint8 :: "pyobj list \<Rightarrow> error + ndarray" where
  "numpy_array_uint8 xs =
     (case pyshape (PyList xs) of
        None \<Rightarrow> Inl ValueError
      | Some sh \<Rightarrow>
          Inr \<lparr>dtype_name = ''uint8'', shape = sh,
               entries = map (\<lambda>v. nat (v mod 256)) (pyflat (PyList xs))\<rparr>)"

text \<open>What a caller can pass where the source tests \<open>None\<close>, list or tuple, and
  \<open>numpy.ndarray\<close>; \<open>PObject\<close> is a value of any other type.\<close>

datatype pyvalue = PNone | PSeq "pyobj list" | PArray ndarray | PObject

section \<open>XML elements\<close>

text \<open>
  An \<open>ElementTree.Element\<close>: tag, attributes, text and children.
\<close>

datatype element =
  Element (el_tag: string) (el_attrib: "(string \<times> string) list") (el_text: "string option")
    (el_children: "element list")

text \<open>
  \<open>node.find(name)\<close> when \<open>xml_ns\<close> is \<open>None\<close>, else
  \<open>node.find('default:' + name, xml_ns)\<close>: the first child with the tag, qualified by
  the namespace that the dictionary gives to the prefix \<open>default\<close>. A dictionary
  without that prefix makes ElementTree raise \<open>SyntaxError\<close>.
\<close>

definition find_child :: "element \<Rightarrow> (string \<times> string) list option \<Rightarrow> string \<Rightarrow> error + element option" where
  "find_child node xml_ns name =
     (case xml_ns of
        None \<Rightarrow> Inr (find (\<lambda>c. el_tag c = name) (el_children node))
      | Some ns \<Rightarrow>
          (case map_of ns ''default'' of
             None \<Rightarrow> Inl SyntaxError
           | Some uri \<Rightarrow>
               Inr (find (\<lambda>c. el_tag c = ''{'' @ uri @ ''}'' @ name) (el_children node))))"

text \<open>
  Modelled from the spec: \<open>int_func\<close> and \<open>_get_node_value\<close> are helpers of base.py,
  outside the source tree, and the specification does not describe them. They are
  taken for what their names and their use say: \<open>int_func\<close> is Python's \<open>int\<close>
  (section 4.1: an integer accepts numeric strings), and \<open>_get_node_value\<close> gives the
  text of the element, \<open>None\<close> when it has none.
\<close>

definition int_func :: "string \<Rightarrow> error + int" where
  "int_func s = py_int s"

definition get_node_value :: "element \<Rightarrow> string option" where
  "get_node_value nod = el_text nod"


section \<open>The record types of ProductDisplay.py\<close>

text \<open>\<open>ColorDisplayRemapType\<close> holds the slot \<open>_remap_lut\<close>.\<close>

record ColorDisplayRemapType =
  remap_lut :: "ndarray option"

text \<open>\<open>MonochromeDisplayRemapType\<close> holds two descriptors and its own \<open>_remap_lut\<close>
  (\<open>mono_remap_lut\<close> here).\<close>

record MonochromeDisplayRemapType =
  RemapType :: "string option"
  RemapParameters :: "(string \<times> string) list option"
  mono_remap_lut :: "ndarray option"

record RemapChoiceType =
  ColorDisplayRemap :: "ColorDisplayRemapType option"
  MonochromeDisplayRemap :: "MonochromeDisplayRemapType option"

record MonitorCompensationAppliedType =
  Gamma :: "pyfloat option"
  XMin :: "pyfloat option"

record DRAHistogramOverridesType =
  ClipMin :: "int option"
  ClipMax :: "int option"

record ProductDisplayType =
  PixelType :: "string option"
  RemapInformation :: "RemapChoiceType option"
  MagnificationMethod :: "string option"
  DecimationMethod :: "string option"
  DRAHistogramOverrides :: "DRAHistogramOverridesType option"
  MonitorCompensationApplied :: "MonitorCompensationAppliedType option"
  DisplayExtensions :: "(string \<times> string) list option"

subsection \<open>The schema tables\<close>

definition MonochromeDisplayRemapType_schema :: schema where
  "MonochromeDisplayRemapType_schema =
     \<lparr>fields_tbl = [''RemapType'', ''RemapParameters''],
      required_tbl = [''RemapType''],
      collections_tags = [(''RemapParameters'', False, ''RemapParameter'')]\<rparr>"

definition RemapChoiceType_schema :: schema where
  "RemapChoiceType_schema =
     \<lparr>fields_tbl = [''ColorDisplayRemap'', ''MonochromeDisplayRemap''],
      required_tbl = [],
      collections_tags = []\<rparr>"

definition MonitorCompensationAppliedType_schema :: schema where
  "MonitorCompensationAppliedType_schema =
     \<lparr>fields_tbl = [''Gamma'', ''XMin''],
      required_tbl = [''Gamma'', ''XMin''],
      collections_tags = []\<rparr>"

definition DRAHistogramOverridesType_schema :: schema where
  "DRAHistogramOverridesType_schema =
     \<lparr>fields_tbl = [''ClipMin'', ''ClipMax''],
      required_tbl = [''ClipMin'', ''ClipMax''],
      collections_tags = []\<rparr>"

definition ProductDisplayType_schema :: schema where
  "ProductDisplayType_schema =
     \<lparr>fields_tbl = [''PixelType'', ''RemapInformation'', ''MagnificationMethod'',
        ''DecimationMethod'', ''DRAHistogramOverrides'', ''MonitorCompensationApplied'',
        ''DisplayExtension''],
      required_tbl = [''PixelType''],
      collections_tags = [(''DisplayExtensions'', False, ''DisplayExtension'')]\<rparr>"

text \<open>The invariant of a record schema: every name of the required set and every key of
  the collections table is a name of the field table.\<close>

definition schema_invariant :: "schema \<Rightarrow> bool" where
  "schema_invariant sch =
     (set (required_tbl sch) \<subseteq> set (fields_tbl sch)
      \<and> set (map fst (collections_tags sch)) \<subseteq> set (fields_tbl sch))"

text \<open>The classes of the three source files that declare schema tables.
  \<open>ColorDisplayRemapType\<close> declares none.\<close>

definition declared_schemas :: "(string \<times> schema) list" where
  "declared_schemas =
     [(''RcvChanProcType'', RcvChanProcType_schema),
      (''TxFrequencyProcType'', TxFrequencyProcType_schema),
      (''ProcessingType'', ProcessingType_schema),
      (''DistortionType'', DistortionType_schema),
      (''PolarizationCalibrationType'', PolarizationCalibrationType_schema),
      (''ImageFormationType'', ImageFormationType_schema),
      (''MonochromeDisplayRemapType'', MonochromeDisplayRemapType_schema),
      (''RemapChoiceType'', RemapChoiceType_schema),
      (''MonitorCompensationAppliedType'', MonitorCompensationAppliedType_schema),
      (''DRAHistogramOverridesType'', DRAHistogramOverridesType_schema),
      (''ProductDisplayType'', ProductDisplayType_schema)]"

subsection \<open>ProductDisplayType\<close>

definition ProductDisplayType_attrs :: "ProductDisplayType \<Rightarrow> (string \<times> bool) list" where
  "ProductDisplayType_attrs self =
     [(''PixelType'', PixelType self \<noteq> None),
      (''RemapInformation'', RemapInformation self \<noteq> None),
      (''MagnificationMethod'', MagnificationMethod self \<noteq> None),
      (''DecimationMethod'', DecimationMethod self \<noteq> None),
      (''DRAHistogramOverrides'', DRAHistogramOverrides self \<noteq> None),
      (''MonitorCompensationApplied'', MonitorCompensationApplied self \<noteq> None),
      (''DisplayExtensions'', DisplayExtensions self \<noteq> None)]"

text \<open>The three \<open>_StringEnumDescriptor\<close> declarations of the class.\<close>

definition ProductDisplayType_enum_fields :: "ProductDisplayType enum_field list" where
  "ProductDisplayType_enum_fields =
     [(''PixelType'', [''MONO8I'', ''MONO8LU'', ''MONO16I'', ''RGBL8U'', ''RGB24I''],
         PixelType, \<lambda>v self. self\<lparr>PixelType := v\<rparr>),
      (''MagnificationMethod'', [''NEAREST_NEIGHBOR'', ''BILINEAR'', ''LAGRANGE''],
         MagnificationMethod, \<lambda>v self. self\<lparr>MagnificationMethod := v\<rparr>),
      (''DecimationMethod'', [''NEAREST_NEIGHBOR'', ''BILINEAR'', ''BRIGHTEST_PIXEL'', ''LAGRANGE''],
         DecimationMethod, \<lambda>v self. self\<lparr>DecimationMethod := v\<rparr>)]"

text \<open>The class does not override \<open>_basic_validity_check\<close>: its check is the inherited
  one. The state is the node and the log.\<close>

definition ProductDisplayType_basic_validity_check ::
  "ProductDisplayType \<Rightarrow> diagnostic list \<Rightarrow> bool \<times> ProductDisplayType \<times> diagnostic list" where
  "ProductDisplayType_basic_validity_check self lg =
     (case Serializable_basic_validity_check ProductDisplayType_schema
             (ProductDisplayType_attrs self)
             (enum_values_of ProductDisplayType_enum_fields self) lg of
        (condition, lg1) \<Rightarrow> (condition, self, lg1))"

text \<open>\<open>ProductDisplayType()\<close>: the constructor with every parameter at its default.\<close>

definition ProductDisplayType_empty :: ProductDisplayType where
  "ProductDisplayType_empty =
     \<lparr>PixelType = None, RemapInformation = None, MagnificationMethod = None,
      DecimationMethod = None, DRAHistogramOverrides = None,
      MonitorCompensationApplied = None, DisplayExtensions = None\<rparr>"

subsection \<open>ColorDisplayRemapType\<close>

text \<open>
  \<^verbatim>\<open>
  @RemapLUT.setter
  def RemapLUT(self, value):
      if value is None:
          self._remap_lut = None
          return
      if isinstance(value, (tuple, list)):
          value = numpy.array(value, dtype=numpy.uint8)
      if not isinstance(value, numpy.ndarray) or value.dtype.name not in ('uint8', 'uint16'):
          raise ValueError(...)
      if value.ndim != 2 and value.shape[1] != 3:
          raise ValueError('RemapLUT for class ColorDisplayRemapType must be an N x 3 array.')
      self._remap_lut = value
  \<close>
  In the last test \<open>value.shape[1]\<close> is read only when \<open>value.ndim != 2\<close>.
\<close>

definition RemapLUT_store :: "ColorDisplayRemapType \<Rightarrow> ndarray \<Rightarrow> error + ColorDisplayRemapType" where
  "RemapLUT_store self arr =
     (if dtype_name arr \<notin> set [''uint8'', ''uint16''] then Inl ValueError
      else if ndim arr \<noteq> 2 then
        (case shape_at arr 1 of
           Inl e \<Rightarrow> Inl e
         | Inr d \<Rightarrow> if d \<noteq> 3 then Inl ValueError else Inr (self\<lparr>remap_lut := Some arr\<rparr>))
      else Inr (self\<lparr>remap_lut := Some arr\<rparr>))"

definition RemapLUT_set :: "ColorDisplayRemapType \<Rightarrow> pyvalue \<Rightarrow> error + ColorDisplayRemapType" where
  "RemapLUT_set self v =
     (case v of
        PNone \<Rightarrow> Inr (self\<lparr>remap_lut := None\<rparr>)
      | PSeq xs \<Rightarrow>
          (case numpy_array_uint8 xs of Inl e \<Rightarrow> Inl e | Inr arr \<Rightarrow> RemapLUT_store self arr)
      | PArray arr \<Rightarrow> RemapLUT_store self arr
      | PObject \<Rightarrow> Inl ValueError)"

text \<open>\<open>ColorDisplayRemapType(RemapLUT=value)\<close>: the slot is cleared, then set through
  the setter.\<close>

definition ColorDisplayRemapType_init :: "pyvalue \<Rightarrow> error + ColorDisplayRemapType" where
  "ColorDisplayRemapType_init v = RemapLUT_set \<lparr>remap_lut = None\<rparr> v"

text \<open>The property \<open>size\<close>: 0 without a table, else \<open>self._remap_lut.shape[0]\<close>.\<close>

definition size_of :: "ColorDisplayRemapType \<Rightarrow> error + nat" where
  "size_of self = (case remap_lut self of None \<Rightarrow> Inr 0 | Some arr \<Rightarrow> shape_at arr 0)"

text \<open>
  The loop of \<open>from_node\<close>, with the array, the row counter and the log as its state:
  \<^verbatim>\<open>
  for entry in entries:
      if len(entry) == 0:
          continue
      sentry = entry.split(',')
      if len(sentry) != 3:
          logging.error('Parsing RemapLUT is likely compromised. Got entry {}, '
                        'which we are skipping.'.format(entry))
          continue
      arr[i, :] = [int(el) for el in entry]
      i += 1
  \<close>
\<close>

fun parse_entries ::
  "string list \<Rightarrow> ndarray \<Rightarrow> nat \<Rightarrow> diagnostic list \<Rightarrow> error + (ndarray \<times> nat \<times> diagnostic list)" where
  "parse_entries [] arr i lg = Inr (arr, i, lg)"
| "parse_entries (entry # rest) arr i lg =
     (if length entry = 0 then parse_entries rest arr i lg
      else
        (let sentry = py_split_sep CHR '','' entry in
         if length sentry \<noteq> 3 then parse_entries rest arr i (lg @ [SkippedEntry entry])
         else
           (case int_each entry of
              Inl e \<Rightarrow> Inl e
            | Inr vals \<Rightarrow>
                (case set_row arr i vals of
                   Inl e \<Rightarrow> Inl e
                 | Inr arr' \<Rightarrow> parse_entries rest arr' (i + 1) lg))))"

text \<open>
  \<^verbatim>\<open>
  lut_node = node.find('RemapLUT') if xml_ns is None else node.find('default:RemapLUT', xml_ns)
  if lut_node is not None:
      dim1 = int_func(lut_node.attrib['size'])
      dim2 = 3
      arr = numpy.zeros((dim1, dim2), dtype=numpy.uint16)
      entries = _get_node_value(lut_node).split()
      i = 0
      for entry in entries: ...
      if numpy.max(arr) < 256:
          arr = numpy.cast[numpy.uint8](arr)
      return cls(RemapLUT=arr)
  return cls()
  \<close>
  The result is the new node and the log after, or the exception raised.
  \<open>read_table\<close> is the branch for a \<open>RemapLUT\<close> child, \<open>finish_table\<close> its last
  three lines.
\<close>

definition finish_table :: "ndarray \<Rightarrow> diagnostic list \<Rightarrow> error + (ColorDisplayRemapType \<times> diagnostic list)" where
  "finish_table arr lg =
     (case numpy_max arr of
        Inl e \<Rightarrow> Inl e
      | Inr mx \<Rightarrow>
          (case ColorDisplayRemapType_init (PArray (if mx < 256 then cast_uint8 arr else arr)) of
             Inl e \<Rightarrow> Inl e
           | Inr obj \<Rightarrow> Inr (obj, lg)))"

definition read_table :: "element \<Rightarrow> diagnostic list \<Rightarrow> error + (ColorDisplayRemapType \<times> diagnostic list)" where
  "read_table lut_node lg =
     (case map_of (el_attrib lut_node) ''size'' of
        None \<Rightarrow> Inl KeyError
      | Some sz \<Rightarrow>
          (case int_func sz of
             Inl e \<Rightarrow> Inl e
           | Inr dim1 \<Rightarrow>
               (case numpy_zeros_uint16 dim1 3 of
                  Inl e \<Rightarrow> Inl e
                | Inr arr \<Rightarrow>
                    (case get_node_value lut_node of
                       None \<Rightarrow> Inl AttributeError
                     | Some txt \<Rightarrow>
                         (case parse_entries (py_split txt) arr 0 lg of
                            Inl e \<Rightarrow> Inl e
                          | Inr (arr1, i, lg1) \<Rightarrow> finish_table arr1 lg1)))))"

definition from_node ::
  "element \<Rightarrow> (string \<times> string) list option \<Rightarrow> diagnostic list
     \<Rightarrow> error + (ColorDisplayRemapType \<times> diagnostic list)" where
  "from_node node xml_ns lg =
     (case find_child node xml_ns ''RemapLUT'' of
        Inl e \<Rightarrow> Inl e
      | Inr None \<Rightarrow>
          (case ColorDisplayRemapType_init PNone of Inl e \<Rightarrow> Inl e | Inr obj \<Rightarrow> Inr (obj, lg))
      | Inr (Some lut_node) \<Rightarrow> read_table lut_node lg)"

text \<open>
  \<open>'{0:d},{1:d},{2:d}'.format(*entry)\<close> for each \<open>entry\<close> that iteration over the table
  yields. A table of no dimension cannot be iterated and the entries of a table of
  one dimension cannot be unpacked (\<open>TypeError\<close>); a row of a two-dimensional table
  with fewer than three entries has no replacement index 2 (\<open>IndexError\<close>); the
  entries of a table of more dimensions are arrays, which \<open>d\<close> does not format
  (\<open>TypeError\<close>, or \<open>IndexError\<close> when there is none to format).
\<close>

definition format_row :: "nat list \<Rightarrow> string" where
  "format_row row =
     str_nat (row ! 0) @ '','' @ str_nat (row ! 1) @ '','' @ str_nat (row ! 2)"

definition format_rows :: "ndarray \<Rightarrow> error + string list" where
  "format_rows lut =
     (if ndim lut = 0 then Inl TypeError
      else if shape lut ! 0 = 0 then Inr []
      else if ndim lut = 1 then Inl TypeError
      else if ndim lut = 2 then
        (if shape lut ! 1 < 3 then Inl IndexError else Inr (map format_row (ndarray_rows lut)))
      else if shape lut ! 1 = 0 then Inl IndexError
      else Inl TypeError)"

text \<open>
  \<^verbatim>\<open>
  node = _create_new_node(doc, tag, parent=parent)
  if self._remap_lut is not None:
      value = ' '.join('{0:d},{1:d},{2:d}'.format(*entry) for entry in self._remap_lut)
      entry = _create_text_node(doc, 'RemapLUT', value, parent=node)
      entry.attrib['size'] = str(self.size)
  return node
  \<close>
  The result is the element that \<open>to_node\<close> returns. \<open>_create_new_node\<close> and
  \<open>_create_text_node\<close> (base.py, outside the source tree) make an element with the
  tag, and with the text, under the parent.
\<close>

definition to_node :: "ColorDisplayRemapType \<Rightarrow> string \<Rightarrow> error + element" where
  "to_node self tag =
     (case remap_lut self of
        None \<Rightarrow> Inr (Element tag [] None [])
      | Some lut \<Rightarrow>
          (case format_rows lut of
             Inl e \<Rightarrow> Inl e
           | Inr rows \<Rightarrow>
               (case size_of self of
                  Inl e \<Rightarrow> Inl e
                | Inr n \<Rightarrow>
                    Inr (Element tag [] None
                          [Element ''RemapLUT'' [(''size'', str_nat n)]
                             (Some (py_join '' '' rows)) []]))))"

text \<open>A table is a valid N-by-3 table when its dtype is \<open>uint8\<close> or \<open>uint16\<close>, its shape
  is \<open>(N, 3)\<close> and it holds \<open>3 * N\<close> entries of the dtype's range.\<close>

definition valid_lut :: "ndarray \<Rightarrow> bool" where
  "valid_lut a =
     ((dtype_name a = ''uint8'' \<or> dtype_name a = ''uint16'')
      \<and> length (shape a) = 2 \<and> shape a ! 1 = 3
      \<and> length (entries a) = shape a ! 0 * 3
      \<and> list_all (\<lambda>v. v < (if dtype_name a = ''uint8'' then 256 else 65536)) (entries a))"


section \<open>The fixed-width record of CSCCGA.py\<close>

text \<open>
  \<open>CSCCGAType.__init__\<close> declares its fields by eight calls of \<open>add_field\<close>, each with
  a name, a kind (\<open>'s'\<close> for a string, \<open>'d'\<close> for an integer) and a width in bytes:
  \<^verbatim>\<open>
  self.add_field('CCG_SOURCE', 's', 18, value)
  self.add_field('REG_SENSOR', 's', 6, value)
  self.add_field('ORIGIN_LINE', 'd', 7, value)
  self.add_field('ORIGIN_SAMPLE', 'd', 5, value)
  self.add_field('AS_CELL_SIZE', 'd', 7, value)
  self.add_field('CS_CELL_SIZE', 'd', 5, value)
  self.add_field('CCG_MAX_LINE', 'd', 7, value)
  self.add_field('CCG_MAX_SAMPLE', 'd', 5, value)
  \<close>
  The layout is that list, in the order of the calls. Bytes are characters.
\<close>

type_synonym layout = "(string \<times> char \<times> nat) list"

definition CSCCGA_layout :: layout where
  "CSCCGA_layout =
     [(''CCG_SOURCE'', CHR ''s'', 18),
      (''REG_SENSOR'', CHR ''s'', 6),
      (''ORIGIN_LINE'', CHR ''d'', 7),
      (''ORIGIN_SAMPLE'', CHR ''d'', 5),
      (''AS_CELL_SIZE'', CHR ''d'', 7),
      (''CS_CELL_SIZE'', CHR ''d'', 5),
      (''CCG_MAX_LINE'', CHR ''d'', 7),
      (''CCG_MAX_SAMPLE'', CHR ''d'', 5)]"

definition total_width :: "layout \<Rightarrow> nat" where
  "total_width lay = sum_list (map (\<lambda>(name, kind, width). width) lay)"

datatype tre_value = TreString string | TreInt int

text \<open>
  Modelled from the spec: \<open>TREElement\<close> and its \<open>add_field\<close> are declared in
  tre_elements.py, outside the source tree. Section 4.4 of the specification gives the
  deserialization: the buffer is sliced at the cumulative offsets of the field widths,
  in order, and each slice is coerced by the kind of its field (section 4.1: a string
  accepts any string; an integer accepts a numeric string and fails with
  \<open>TypeError\<close> on any other); a buffer shorter than the total width fails with
  \<open>TruncatedRecord\<close>; bytes beyond the total width are not read.
\<close>

definition coerce :: "char \<Rightarrow> string \<Rightarrow> error + tre_value" where
  "coerce kind bytes =
     (if kind = CHR ''s'' then Inr (TreString bytes)
      else if kind = CHR ''d'' then
        (case py_int bytes of Inl e \<Rightarrow> Inl TypeError | Inr v \<Rightarrow> Inr (TreInt v))
      else Inl TypeError)"

fun slice_fields :: "layout \<Rightarrow> nat \<Rightarrow> string \<Rightarrow> error + (string \<times> tre_value) list" where
  "slice_fields [] offset buf = Inr []"
| "slice_fields ((name, kind, width) # rest) offset buf =
     (case coerce kind (take width (drop offset buf)) of
        Inl e \<Rightarrow> Inl e
      | Inr v \<Rightarrow>
          (case slice_fields rest (offset + width) buf of
             Inl e \<Rightarrow> Inl e
           | Inr vs \<Rightarrow> Inr ((name, v) # vs)))"

definition deserialize :: "string \<Rightarrow> layout \<Rightarrow> error + (string \<times> tre_value) list" where
  "deserialize buf lay =
     (if length buf < total_width lay then Inl TruncatedRecord else slice_fields lay 0 buf)"

text \<open>\<open>CSCCGAType(value)\<close>: the fields of the record read from the buffer \<open>value\<close>.\<close>

definition CSCCGAType :: "string \<Rightarrow> error + (string \<times> tre_value) list" where
  "CSCCGAType v = deserialize v CSCCGA_layout"

text \<open>The slices of a buffer for the eight fields, written out: name, kind, first byte
  and one past the last byte.\<close>

definition CSCCGA_slices :: "(string \<times> char \<times> nat \<times> nat) list" where
  "CSCCGA_slices =
     [(''CCG_SOURCE'', CHR ''s'', 0, 18),
      (''REG_SENSOR'', CHR ''s'', 18, 24),
      (''ORIGIN_LINE'', CHR ''d'', 24, 31),
      (''ORIGIN_SAMPLE'', CHR ''d'', 31, 36),
      (''AS_CELL_SIZE'', CHR ''d'', 36, 43),
      (''CS_CELL_SIZE'', CHR ''d'', 43, 48),
      (''CCG_MAX_LINE'', CHR ''d'', 48, 55),
      (''CCG_MAX_SAMPLE'', CHR ''d'', 55, 60)]"

text \<open>\<open>buf[lo:hi]\<close>.\<close>

definition py_slice :: "string \<Rightarrow> nat \<Rightarrow> nat \<Rightarrow> string" where
  "py_slice buf lo hi = take (hi - lo) (drop lo buf)"

text \<open>Coercing a list of named slices in order; the first failure is the result.\<close>

fun coerce_all :: "(string \<times> char \<times> string) list \<Rightarrow> error + (string \<times> tre_value) list" where
  "coerce_all [] = Inr []"
| "coerce_all ((name, kind, bytes) # rest) =
     (case coerce kind bytes of
        Inl e \<Rightarrow> Inl e
      | Inr v \<Rightarrow>
          (case coerce_all rest of
             Inl e \<Rightarrow> Inl e
           | Inr vs \<Rightarrow> Inr ((name, v) # vs)))"

section \<open>Properties of the float model\<close>

lemma float_add_rounds:
  "float_add (float_add (Finite 1 53) (Finite 1 0)) (Finite 1 0) = Finite 1 53"
  by code_simp

lemma float_add_exact:
  "float_add (Finite 1 53) (float_add (Finite 1 0) (Finite 1 0)) = Finite 4503599627370497 1"
  by code_simp

lemma float_add_small:
  "float_add (float_add (Finite 1 0) (Finite 1 1)) (Finite 3 0) = Finite 3 1"
  "float_add (Finite 1 0) (float_add (Finite 1 1) (Finite 3 0)) = Finite 3 1"
  "float_add (Finite 1 1) (Finite 3 0) = Finite 5 0"
  "float_add (Finite 1 0) (Finite 5 0) = Finite 3 1"
  by code_simp+

section \<open>The generic validation pass\<close>

lemma Serializable_no_cross:
  "filter is_cross_field (snd (Serializable_basic_validity_check sch attrs enums lg))
     = filter is_cross_field lg"
proof -
  have a: "filter is_cross_field (map MissingRequiredField xs) = []" for xs
    by (induction xs) auto
  have b: "filter is_cross_field (concat (map (\<lambda>(n, vals, v).
            case v of None \<Rightarrow> [] | Some s \<Rightarrow> if s \<in> set vals then [] else [EnumViolationOf n s]) es)) = []" for es
    by (induction es) (auto split: option.splits)
  show ?thesis
    by (simp add: Serializable_basic_validity_check_def Let_def a b)
qed

lemma Serializable_reports_enum:
  assumes "(n, vals, Some s) \<in> set enums" and "s \<notin> set vals"
  shows "EnumViolationOf n s \<in> set (snd (Serializable_basic_validity_check sch attrs enums lg))"
    and "\<not> fst (Serializable_basic_validity_check sch attrs enums lg)"
proof -
  let ?f = "\<lambda>(n, vals, v). case v of None \<Rightarrow> [] | Some s \<Rightarrow> if s \<in> set vals then [] else [EnumViolationOf n s]"
  have "EnumViolationOf n s \<in> set (?f (n, vals, Some s))" using assms(2) by simp
  with assms(1) have "\<exists>e \<in> set enums. EnumViolationOf n s \<in> set (?f e)" by (rule rev_bexI)
  then have in_invalid: "EnumViolationOf n s \<in> set (concat (map ?f enums))"
    by (simp only: set_concat set_map UN_iff bex_simps image_iff)
  then show "EnumViolationOf n s \<in> set (snd (Serializable_basic_validity_check sch attrs enums lg))"
    by (simp add: Serializable_basic_validity_check_def Let_def)
  from in_invalid have "concat (map ?f enums) \<noteq> []" by (metis empty_iff list.set(1))
  then show "\<not> fst (Serializable_basic_validity_check sch attrs enums lg)"
    by (simp add: Serializable_basic_validity_check_def Let_def)
qed

lemma ImageFormationType_enum_get_set:
  "(name, vals, getter, setter) \<in> set ImageFormationType_enum_fields \<Longrightarrow> getter (setter v self) = v"
  by (auto simp: ImageFormationType_enum_fields_def)

lemma ProductDisplayType_enum_get_set:
  "(name, vals, getter, setter) \<in> set ProductDisplayType_enum_fields \<Longrightarrow> getter (setter v self) = v"
  by (auto simp: ProductDisplayType_enum_fields_def)

lemma enum_values_of_mem:
  "(name, vals, getter, setter) \<in> set flds \<Longrightarrow> (name, vals, getter self) \<in> set (enum_values_of flds self)"
  by (force simp: enum_values_of_def)

section \<open>The default-from-sibling hook\<close>

text \<open>
  What \<open>_derive_tx_frequency_proc\<close> does for any node, when the sibling gives both
  \<open>Min\<close> and \<open>Max\<close>: a \<open>TxFrequencyProc\<close> that is present is replaced by the sibling's
  pair, whatever it held; one that is absent makes the hook raise \<open>AttributeError\<close>,
  at \<open>self.TxFrequencyProc.MinProc\<close>.
\<close>

lemma derive_tx_frequency_proc_present:
  "derive_tx_frequency_proc (self\<lparr>TxFrequencyProc := Some t\<rparr>)
     (Some \<lparr>TxFrequency = Some \<lparr>Min_tx = Some mn, Max_tx = Some mx\<rparr>\<rparr>)
   = Inr (self\<lparr>TxFrequencyProc := Some \<lparr>MinProc = Some mn, MaxProc = Some mx\<rparr>\<rparr>)"
  by (simp add: derive_tx_frequency_proc_def derive_body_def TxFrequencyProcType_init_def)

lemma derive_tx_frequency_proc_absent:
  "derive_tx_frequency_proc (self\<lparr>TxFrequencyProc := None\<rparr>)
     (Some \<lparr>TxFrequency = Some \<lparr>Min_tx = Some mn, Max_tx = Some mx\<rparr>\<rparr>)
   = Inl AttributeError"
  by (simp add: derive_tx_frequency_proc_def derive_body_def get_MinProc_def)

text \<open>
  C1. The claim is that the hook never overwrites a \<open>TxFrequencyProc\<close> that is present,
  builds it from the sibling's \<open>(Min, Max)\<close> when it is absent, and copies only a
  missing sub-field. The code tests \<open>self.TxFrequencyProc is not None\<close> where the claim
  needs \<open>is None\<close>: on a node holding \<open>MinProc = 1.0, MaxProc = 2.0\<close> and a sibling with
  \<open>Min = 5.0, Max = 7.0\<close> the hook stores \<open>(5.0, 7.0)\<close>, and on a node without
  \<open>TxFrequencyProc\<close> it raises \<open>AttributeError\<close> instead of building the value.
\<close>

theorem derive_tx_frequency_proc_overwrites:
  "derive_tx_frequency_proc
     (ImageFormationType_empty
        \<lparr>TxFrequencyProc := Some \<lparr>MinProc = Some (Finite 1 0), MaxProc = Some (Finite 1 1)\<rparr>\<rparr>)
     (Some \<lparr>TxFrequency = Some \<lparr>Min_tx = Some (Finite 5 0), Max_tx = Some (Finite 7 0)\<rparr>\<rparr>)
   = Inr (ImageFormationType_empty
        \<lparr>TxFrequencyProc := Some \<lparr>MinProc = Some (Finite 5 0), MaxProc = Some (Finite 7 0)\<rparr>\<rparr>)
   \<and> derive_tx_frequency_proc ImageFormationType_empty
     (Some \<lparr>TxFrequency = Some \<lparr>Min_tx = Some (Finite 5 0), Max_tx = Some (Finite 7 0)\<rparr>\<rparr>)
   = Inl AttributeError"
  by (simp add: derive_tx_frequency_proc_def derive_body_def ImageFormationType_empty_def
      TxFrequencyProcType_init_def get_MinProc_def)

section \<open>Deserialization and serialization of the colour table\<close>

text \<open>
  An entry passes the test \<open>len(sentry) == 3\<close> only if it holds two commas, and the
  conversion of its characters then raises at the first of them. So the loop of
  \<open>from_node\<close> raises \<open>ValueError\<close> at every entry that it does not skip.
\<close>

lemma py_int_error: "py_int s = Inl e \<Longrightarrow> e = ValueError"
  by (auto simp: py_int_def split: list.splits option.splits if_splits)

lemma py_int_comma: "py_int '','' = Inl ValueError"
  by code_simp

lemma int_each_comma: "CHR '','' \<in> set s \<Longrightarrow> int_each s = Inl ValueError"
proof (induction s)
  case Nil
  then show ?case by simp
next
  case (Cons c rest)
  show ?case
  proof (cases "c = CHR '',''")
    case True
    then show ?thesis by (simp add: py_int_comma)
  next
    case False
    with Cons have "int_each rest = Inl ValueError" by simp
    then show ?thesis by (auto split: sum.splits dest: py_int_error)
  qed
qed

lemma length_split_on: "length (split_on sep cur s) = Suc (count_list s sep)"
  by (induction s arbitrary: cur) auto

lemma parse_entries_wellformed_head:
  assumes "length (py_split_sep CHR '','' entry) = 3"
  shows "parse_entries (entry # rest) arr i lg = Inl ValueError"
proof -
  from assms have "count_list entry CHR '','' = 2"
    by (simp add: py_split_sep_def length_split_on)
  then have "CHR '','' \<in> set entry"
    by (metis count_list_0_iff zero_neq_numeral)
  then have "int_each entry = Inl ValueError" and "entry \<noteq> []"
    by (auto simp: int_each_comma)
  with assms show ?thesis by (simp add: Let_def)
qed

lemma split_ws_run:
  "\<forall>c \<in> set x. \<not> is_space c \<Longrightarrow> cur @ x \<noteq> [] \<Longrightarrow>
     split_ws cur x = [cur @ x]
     \<and> (is_space d \<longrightarrow> split_ws cur (x @ d # r) = (cur @ x) # split_ws [] r)"
  by (induction x arbitrary: cur) auto

lemma str_nat_digits: "str_nat n \<noteq> [] \<and> (\<forall>c \<in> set (str_nat n). is_digit c)"
proof (induction n rule: str_nat.induct)
  case (1 n)
  have d: "is_digit (digit_char k)" if "k < 10" for k
    using that by (simp add: is_digit_def digit_char_def)
  show ?case
  proof (cases "n < 10")
    case True
    then show ?thesis by (subst str_nat.simps, subst (2) str_nat.simps) (simp add: d)
  next
    case False
    with 1 have "str_nat (n div 10) \<noteq> [] \<and> (\<forall>c \<in> set (str_nat (n div 10)). is_digit c)" by simp
    with False show ?thesis
      by (subst str_nat.simps, subst (2) str_nat.simps) (simp add: d)
  qed
qed


lemma digit_not_space_comma: "is_digit c \<Longrightarrow> \<not> is_space c \<and> c \<noteq> CHR '',''"
  by (auto simp: is_digit_def is_space_def)

lemma format_row_shape:
  "format_row row \<noteq> [] \<and> (\<forall>c \<in> set (format_row row). \<not> is_space c)
   \<and> length (py_split_sep CHR '','' (format_row row)) = 3"
proof -
  have sp: "\<not> is_space CHR '',''" by (simp add: is_space_def)
  have cnt: "count_list (str_nat k) CHR '','' = 0" for k
    using str_nat_digits [of k] digit_not_space_comma by (auto simp: count_list_0_iff)
  have nsp: "\<forall>c \<in> set (str_nat k). \<not> is_space c" for k
    using str_nat_digits [of k] digit_not_space_comma by blast
  show ?thesis
    using str_nat_digits [of "row ! 0"] nsp sp
    by (simp add: format_row_def py_split_sep_def length_split_on cnt ball_Un)
qed

lemma py_split_join_head:
  assumes "\<forall>c \<in> set e. \<not> is_space c" and "e \<noteq> []"
  shows "\<exists>tl. py_split (py_join '' '' (e # es)) = e # tl"
proof (cases es)
  case Nil
  then show ?thesis using split_ws_run [of e "[]"] assms by (simp add: py_split_def)
next
  case (Cons y ys)
  have "is_space CHR '' ''" by (simp add: is_space_def)
  then have "split_ws [] (e @ CHR '' '' # py_join '' '' (y # ys)) = e # split_ws [] (py_join '' '' (y # ys))"
    using split_ws_run [of e "[]" "CHR '' ''" "py_join '' '' (y # ys)"] assms by simp
  then show ?thesis using Cons by (simp add: py_split_def)
qed

lemma int_func_zero: "int_func ''0'' = Inr 0"
  by code_simp

lemma str_nat_zero: "str_nat 0 = ''0''"
  by code_simp

lemma split_example: "py_split ''1,2,3 4,5'' = [''1,2,3'', ''4,5'']"
  by code_simp

lemma split_sep_example: "py_split_sep CHR '','' ''1,2,3'' = [''1'', ''2'', ''3'']"
  by code_simp

text \<open>
  The text \<open>1,2,3 4,5\<close> makes \<open>from_node\<close> raise \<open>ValueError\<close> whatever the \<open>size\<close>
  attribute says.
\<close>

lemma from_node_aborts_any_size:
  "from_node (Element tag [] None [Element ''RemapLUT'' [(''size'', sz)] (Some ''1,2,3 4,5'') []])
     None lg = Inl ValueError"
proof -
  have "parse_entries (py_split ''1,2,3 4,5'') arr 0 lg = Inl ValueError" for arr
    using parse_entries_wellformed_head [of "''1,2,3''" "[''4,5'']" arr 0 lg]
    by (simp only: split_example split_sep_example) simp
  then show ?thesis
    by (auto simp: from_node_def find_child_def read_table_def get_node_value_def
        int_func_def numpy_zeros_uint16_def split: sum.splits dest: py_int_error)
qed

text \<open>
  For every valid N-by-3 table, \<open>to_node\<close> returns an element and \<open>from_node\<close> of that
  element raises \<open>ValueError\<close>: at the first entry when the table has a row, at
  \<open>numpy.max\<close> of the empty array when it has none.
\<close>

lemma from_node_to_node_never_returns:
  assumes "valid_lut a"
  shows "\<exists>n. to_node \<lparr>remap_lut = Some a\<rparr> tag = Inr n \<and> from_node n None lg = Inl ValueError"
proof -
  obtain N where sh: "shape a = [N, 3]"
    using assms by (cases "shape a"; cases "tl (shape a)") (auto simp: valid_lut_def)
  let ?text = "py_join '' '' (map format_row (ndarray_rows a))"
  let ?n = "Element tag [] None [Element ''RemapLUT'' [(''size'', str_nat N)] (Some ?text) []]"
  have to: "to_node \<lparr>remap_lut = Some a\<rparr> tag = Inr ?n"
    using sh by (cases "N = 0")
      (simp_all add: to_node_def format_rows_def ndim_def size_of_def shape_at_def ndarray_rows_def)
  have "from_node ?n None lg = Inl ValueError"
  proof (cases "N = 0")
    case True
    then show ?thesis
      using sh
      by (simp add: from_node_def find_child_def read_table_def str_nat_zero int_func_zero
          numpy_zeros_uint16_def get_node_value_def ndarray_rows_def py_split_def
          finish_table_def numpy_max_def)
  next
    case False
    then have "[0..<N] = 0 # [1..<N]" by (simp add: upt_conv_Cons)
    then obtain r rs where rows: "map format_row (ndarray_rows a) = format_row r # rs"
      using sh by (simp add: ndarray_rows_def)
    obtain tl where sp: "py_split ?text = format_row r # tl"
      using py_split_join_head [of "format_row r" rs] format_row_shape [of r] rows by auto
    have pe: "parse_entries (py_split ?text) arr 0 lg = Inl ValueError" for arr
      using sp parse_entries_wellformed_head [of "format_row r" tl arr 0 lg] format_row_shape [of r]
      by simp
    show ?thesis
      by (auto simp: from_node_def find_child_def read_table_def get_node_value_def pe
          int_func_def numpy_zeros_uint16_def split: sum.splits dest: py_int_error)
  qed
  with to show ?thesis by blast
qed

text \<open>
  C2. The claim is that \<open>from_node\<close>, given a \<open>RemapLUT\<close> child with the text
  \<open>1,2,3 4,5\<close>, parses the first entry into the row \<open>(1, 2, 3)\<close>, skips the second
  and returns a table. The code converts the characters of \<open>entry\<close>, not the pieces
  \<open>sentry\<close> of its split, so the comma of the first entry raises \<open>ValueError\<close> and
  the parse aborts; here with the attribute \<open>size = 2\<close>.
\<close>

theorem from_node_aborts_on_first_entry:
  "from_node (Element ''ColorDisplayRemap'' [] None
      [Element ''RemapLUT'' [(''size'', ''2'')] (Some ''1,2,3 4,5'') []]) None []
   = Inl ValueError"
  by code_simp

text \<open>
  C3. The claim is that \<open>from_node\<close> of the element that \<open>to_node\<close> makes gives back the
  table. For the valid 2-by-3 table \<open>[[1, 2, 3], [40, 50, 60]]\<close> of dtype \<open>uint8\<close>,
  \<open>to_node\<close> writes the text \<open>1,2,3 40,50,60\<close> with \<open>size = 2\<close>, and \<open>from_node\<close>
  of that element raises \<open>ValueError\<close>, for the reason given at C2.
\<close>

theorem from_node_to_node_raises:
  "valid_lut \<lparr>dtype_name = ''uint8'', shape = [2, 3], entries = [1, 2, 3, 40, 50, 60]\<rparr>
   \<and> to_node \<lparr>remap_lut = Some \<lparr>dtype_name = ''uint8'', shape = [2, 3],
                                  entries = [1, 2, 3, 40, 50, 60]\<rparr>\<rparr> ''ColorDisplayRemap''
     = Inr (Element ''ColorDisplayRemap'' [] None
             [Element ''RemapLUT'' [(''size'', ''2'')] (Some ''1,2,3 40,50,60'') []])
   \<and> from_node (Element ''ColorDisplayRemap'' [] None
             [Element ''RemapLUT'' [(''size'', ''2'')] (Some ''1,2,3 40,50,60'') []]) None []
     = Inl ValueError"
  by code_simp

section \<open>The schema invariant\<close>

text \<open>
  C4. The claim is that in every record type the required names and the keys of the
  collections table are names of the field table. Of the eleven classes that declare
  tables, exactly \<open>ProductDisplayType\<close> breaks it: the key \<open>DisplayExtensions\<close> of
  its \<open>_collections_tags\<close> (also the name of its descriptor) is not in \<open>_fields\<close>,
  which lists \<open>DisplayExtension\<close>.
\<close>

theorem ProductDisplayType_breaks_schema_invariant:
  "filter (\<lambda>(name, sch). \<not> schema_invariant sch) declared_schemas
     = [(''ProductDisplayType'', ProductDisplayType_schema)]
   \<and> ''DisplayExtensions'' \<in> set (map fst (collections_tags ProductDisplayType_schema))
   \<and> ''DisplayExtensions'' \<notin> set (fields_tbl ProductDisplayType_schema)"
  by (simp add: declared_schemas_def schema_invariant_def RcvChanProcType_schema_def
      TxFrequencyProcType_schema_def ProcessingType_schema_def DistortionType_schema_def
      PolarizationCalibrationType_schema_def ImageFormationType_schema_def
      MonochromeDisplayRemapType_schema_def RemapChoiceType_schema_def
      MonitorCompensationAppliedType_schema_def DRAHistogramOverridesType_schema_def
      ProductDisplayType_schema_def)

section \<open>The validity checks\<close>

text \<open>
  C5. For a node with \<open>TStartProc\<close> and \<open>TEndProc\<close> present, the validity check of
  \<open>ImageFormationType\<close> returns invalid and adds exactly one cross-field diagnostic,
  the time-bounds one with both values, when \<open>TEndProc < TStartProc\<close>; it adds no
  cross-field diagnostic when \<open>TStartProc <= TEndProc\<close>.
\<close>

theorem ImageFormationType_time_bounds:
  "TStartProc self = Some ts \<Longrightarrow> TEndProc self = Some te \<Longrightarrow>
   (case ImageFormationType_basic_validity_check self lg of
      (condition, self', lg') \<Rightarrow>
        (float_less te ts \<longrightarrow>
           \<not> condition
           \<and> filter is_cross_field lg' = filter is_cross_field lg @ [InvalidTimeBounds ts te])
        \<and> (float_le ts te \<longrightarrow> filter is_cross_field lg' = filter is_cross_field lg))"
  using Serializable_no_cross [of ImageFormationType_schema "ImageFormationType_attrs self"
      "enum_values_of ImageFormationType_enum_fields self" lg]
  by (auto simp: ImageFormationType_basic_validity_check_def float_le_def split: prod.splits)

text \<open>The scenario of the specification, \<open>TStartProc = 5.0\<close> and \<open>TEndProc = 3.0\<close>, and
  the same node with the two times exchanged.\<close>

theorem ImageFormationType_time_bounds_witness:
  "float_less (Finite 3 0) (Finite 5 0)
   \<and> (case ImageFormationType_basic_validity_check
         (ImageFormationType_empty\<lparr>TStartProc := Some (Finite 5 0), TEndProc := Some (Finite 3 0)\<rparr>) [] of
        (condition, self', lg') \<Rightarrow>
          \<not> condition \<and> filter is_cross_field lg' = [InvalidTimeBounds (Finite 5 0) (Finite 3 0)])
   \<and> float_le (Finite 3 0) (Finite 5 0)
   \<and> (case ImageFormationType_basic_validity_check
         (ImageFormationType_empty\<lparr>TStartProc := Some (Finite 3 0), TEndProc := Some (Finite 5 0)\<rparr>) [] of
        (condition, self', lg') \<Rightarrow> filter is_cross_field lg' = [])"
  using ImageFormationType_time_bounds
      [of "ImageFormationType_empty\<lparr>TStartProc := Some (Finite 5 0), TEndProc := Some (Finite 3 0)\<rparr>"
          "Finite 5 0" "Finite 3 0" "[]"]
    ImageFormationType_time_bounds
      [of "ImageFormationType_empty\<lparr>TStartProc := Some (Finite 3 0), TEndProc := Some (Finite 5 0)\<rparr>"
          "Finite 3 0" "Finite 5 0" "[]"]
  by (simp add: float_le_def split: prod.splits)

text \<open>
  C9. The validity checks of \<open>TxFrequencyProcType\<close> and of \<open>ImageFormationType\<close>
  return the node as they received it: every field, and so every nested record, is
  unchanged, whatever the log and whatever the check reports.
\<close>

theorem basic_validity_check_frame:
  "fst (snd (ImageFormationType_basic_validity_check self lg)) = self
   \<and> fst (snd (TxFrequencyProcType_basic_validity_check t lg)) = t"
  by (simp add: ImageFormationType_basic_validity_check_def
      TxFrequencyProcType_basic_validity_check_def split: prod.splits option.splits)

theorem basic_validity_check_frame_witness:
  "fst (snd (ImageFormationType_basic_validity_check
       (ImageFormationType_empty\<lparr>TStartProc := Some (Finite 5 0), TEndProc := Some (Finite 3 0),
          TxFrequencyProc := Some \<lparr>MinProc = Some (Finite 7 0), MaxProc = Some (Finite 1 0)\<rparr>\<rparr>) []))
     = ImageFormationType_empty\<lparr>TStartProc := Some (Finite 5 0), TEndProc := Some (Finite 3 0),
          TxFrequencyProc := Some \<lparr>MinProc = Some (Finite 7 0), MaxProc = Some (Finite 1 0)\<rparr>\<rparr>
   \<and> fst (snd (TxFrequencyProcType_basic_validity_check
       \<lparr>MinProc = Some (Finite 7 0), MaxProc = Some (Finite 1 0)\<rparr> []))
     = \<lparr>MinProc = Some (Finite 7 0), MaxProc = Some (Finite 1 0)\<rparr>"
  using basic_validity_check_frame
      [of "ImageFormationType_empty\<lparr>TStartProc := Some (Finite 5 0), TEndProc := Some (Finite 3 0),
          TxFrequencyProc := Some \<lparr>MinProc = Some (Finite 7 0), MaxProc = Some (Finite 1 0)\<rparr>\<rparr>"
          "[]" "\<lparr>MinProc = Some (Finite 7 0), MaxProc = Some (Finite 1 0)\<rparr>"]
  by simp

section \<open>The reference-frequency shift\<close>

lemma apply_reference_frequency_fields:
  "MinProc (TxFrequencyProcType_apply_reference_frequency t r)
     = map_option (\<lambda>x. float_add x r) (MinProc t)"
  "MaxProc (TxFrequencyProcType_apply_reference_frequency t r)
     = map_option (\<lambda>x. float_add x r) (MaxProc t)"
  by (simp_all add: TxFrequencyProcType_apply_reference_frequency_def Let_def split: option.splits)

text \<open>
  C6, as the claim states it, fails on floats: the two additions of the double shift
  round one after the other. With \<open>MinProc = MaxProc = 2 ^ 53\<close> (9007199254740992.0),
  a shift by \<open>1.0\<close> and then by \<open>1.0\<close> leaves \<open>2 ^ 53\<close>, since \<open>2 ^ 53 + 1\<close> rounds
  to \<open>2 ^ 53\<close> each time, while one shift by \<open>1.0 + 1.0\<close> gives \<open>2 ^ 53 + 2\<close>.
\<close>

theorem apply_reference_frequency_not_additive:
  "TxFrequencyProcType_apply_reference_frequency
     (TxFrequencyProcType_apply_reference_frequency
        \<lparr>MinProc = Some (Finite 1 53), MaxProc = Some (Finite 1 53)\<rparr> (Finite 1 0)) (Finite 1 0)
   \<noteq> TxFrequencyProcType_apply_reference_frequency
        \<lparr>MinProc = Some (Finite 1 53), MaxProc = Some (Finite 1 53)\<rparr>
        (float_add (Finite 1 0) (Finite 1 0))"
  by (simp add: TxFrequencyProcType_apply_reference_frequency_def float_add_rounds float_add_exact
      del: float_add.simps)

text \<open>
  C6, amended. For every node and all float offsets \<open>a\<close> and \<open>b\<close>, the shift by \<open>a\<close>
  and then by \<open>b\<close> leaves an absent field absent and gives a present field \<open>x\<close> the
  value \<open>(x + a) + b\<close>, the two float additions in that order. The result is the one
  of a single shift by \<open>a + b\<close> exactly when \<open>(x + a) + b = x + (a + b)\<close> in float
  arithmetic for every present field \<open>x\<close>; this holds for \<open>TxFrequencyProcType\<close> and
  for the \<open>ImageFormationType\<close> that contains it.
\<close>

theorem apply_reference_frequency_twice:
  "MinProc (TxFrequencyProcType_apply_reference_frequency
              (TxFrequencyProcType_apply_reference_frequency t a) b)
     = map_option (\<lambda>x. float_add (float_add x a) b) (MinProc t)
   \<and> MaxProc (TxFrequencyProcType_apply_reference_frequency
              (TxFrequencyProcType_apply_reference_frequency t a) b)
     = map_option (\<lambda>x. float_add (float_add x a) b) (MaxProc t)
   \<and> (TxFrequencyProcType_apply_reference_frequency
         (TxFrequencyProcType_apply_reference_frequency t a) b
        = TxFrequencyProcType_apply_reference_frequency t (float_add a b)
      \<longleftrightarrow> (\<forall>x. MinProc t = Some x \<or> MaxProc t = Some x \<longrightarrow>
             float_add (float_add x a) b = float_add x (float_add a b)))
   \<and> (ImageFormationType_apply_reference_frequency
         (ImageFormationType_apply_reference_frequency self a) b
        = ImageFormationType_apply_reference_frequency self (float_add a b)
      \<longleftrightarrow> (\<forall>u x. TxFrequencyProc self = Some u \<and> (MinProc u = Some x \<or> MaxProc u = Some x) \<longrightarrow>
             float_add (float_add x a) b = float_add x (float_add a b)))"
proof -
  have tx: "TxFrequencyProcType_apply_reference_frequency
              (TxFrequencyProcType_apply_reference_frequency u a) b
        = TxFrequencyProcType_apply_reference_frequency u (float_add a b)
      \<longleftrightarrow> (\<forall>x. MinProc u = Some x \<or> MaxProc u = Some x \<longrightarrow>
             float_add (float_add x a) b = float_add x (float_add a b))" for u
    by (cases u; cases "MinProc u"; cases "MaxProc u")
      (auto simp: TxFrequencyProcType_apply_reference_frequency_def simp del: float_add.simps)
  have im: "ImageFormationType_apply_reference_frequency
              (ImageFormationType_apply_reference_frequency self a) b
        = ImageFormationType_apply_reference_frequency self (float_add a b)
      \<longleftrightarrow> (\<forall>u x. TxFrequencyProc self = Some u \<and> (MinProc u = Some x \<or> MaxProc u = Some x) \<longrightarrow>
             float_add (float_add x a) b = float_add x (float_add a b))"
  proof (cases "TxFrequencyProc self")
    case None
    then show ?thesis by (simp add: ImageFormationType_apply_reference_frequency_def)
  next
    case (Some u)
    have "ImageFormationType_apply_reference_frequency
            (ImageFormationType_apply_reference_frequency self a) b
        = ImageFormationType_apply_reference_frequency self (float_add a b)
      \<longleftrightarrow> TxFrequencyProcType_apply_reference_frequency
            (TxFrequencyProcType_apply_reference_frequency u a) b
        = TxFrequencyProcType_apply_reference_frequency u (float_add a b)"
      using Some by (cases self) (simp add: ImageFormationType_apply_reference_frequency_def)
    then show ?thesis using Some tx [of u] by simp
  qed
  show ?thesis
    using tx [of t] im
    by (simp add: apply_reference_frequency_fields option.map_comp comp_def del: float_add.simps)
qed

text \<open>A node with \<open>MinProc = 1.0\<close> and no \<open>MaxProc\<close>, shifted by \<open>2.0\<close> and then by
  \<open>3.0\<close>: the two shifts and the single shift by \<open>5.0\<close> both give \<open>MinProc = 6.0\<close>,
  and \<open>MaxProc\<close> stays absent.\<close>

theorem apply_reference_frequency_twice_witness:
  "float_add (float_add (Finite 1 0) (Finite 1 1)) (Finite 3 0)
     = float_add (Finite 1 0) (float_add (Finite 1 1) (Finite 3 0))
   \<and> TxFrequencyProcType_apply_reference_frequency
       (TxFrequencyProcType_apply_reference_frequency
          \<lparr>MinProc = Some (Finite 1 0), MaxProc = None\<rparr> (Finite 1 1)) (Finite 3 0)
     = TxFrequencyProcType_apply_reference_frequency
          \<lparr>MinProc = Some (Finite 1 0), MaxProc = None\<rparr> (float_add (Finite 1 1) (Finite 3 0))
   \<and> MinProc (TxFrequencyProcType_apply_reference_frequency
       (TxFrequencyProcType_apply_reference_frequency
          \<lparr>MinProc = Some (Finite 1 0), MaxProc = None\<rparr> (Finite 1 1)) (Finite 3 0))
     = Some (Finite 3 1)
   \<and> MaxProc (TxFrequencyProcType_apply_reference_frequency
       (TxFrequencyProcType_apply_reference_frequency
          \<lparr>MinProc = Some (Finite 1 0), MaxProc = None\<rparr> (Finite 1 1)) (Finite 3 0))
     = None"
  using apply_reference_frequency_twice
      [of "\<lparr>MinProc = Some (Finite 1 0), MaxProc = None\<rparr>" "Finite 1 1" "Finite 3 0"
          ImageFormationType_empty]
  by (simp add: float_add_small apply_reference_frequency_fields del: float_add.simps)

section \<open>The setter of the colour table\<close>

text \<open>
  C10. Every array of dtype \<open>uint8\<close> or \<open>uint16\<close> with exactly two dimensions is stored
  by the setter of \<open>RemapLUT\<close> as it is, whatever its second dimension; and among the
  arrays of these dtypes with at least two dimensions, the shape test raises exactly
  for those whose number of dimensions is not 2 and whose second dimension is not 3.
\<close>

theorem RemapLUT_set_two_dimensional:
  "(dtype_name a = ''uint8'' \<or> dtype_name a = ''uint16'') \<Longrightarrow>
   (ndim a = 2 \<longrightarrow> RemapLUT_set self (PArray a) = Inr (self\<lparr>remap_lut := Some a\<rparr>))
   \<and> (2 \<le> ndim a \<longrightarrow>
        (RemapLUT_set self (PArray a) = Inl ValueError \<longleftrightarrow> ndim a \<noteq> 2 \<and> shape a ! 1 \<noteq> 3))"
  by (auto simp: RemapLUT_set_def RemapLUT_store_def shape_at_def ndim_def)

text \<open>A 4-by-5 table of dtype \<open>uint16\<close> is stored.\<close>

theorem RemapLUT_set_two_dimensional_witness:
  "ndim \<lparr>dtype_name = ''uint16'', shape = [4, 5], entries = replicate 20 7\<rparr> = 2
   \<and> RemapLUT_set \<lparr>remap_lut = None\<rparr>
        (PArray \<lparr>dtype_name = ''uint16'', shape = [4, 5], entries = replicate 20 7\<rparr>)
     = Inr \<lparr>remap_lut = Some \<lparr>dtype_name = ''uint16'', shape = [4, 5], entries = replicate 20 7\<rparr>\<rparr>"
  using RemapLUT_set_two_dimensional
      [of "\<lparr>dtype_name = ''uint16'', shape = [4, 5], entries = replicate 20 7\<rparr>"
          "\<lparr>remap_lut = None\<rparr>"]
  by (simp add: ndim_def)

section \<open>The fixed-width record\<close>

lemma total_width_CSCCGA: "total_width CSCCGA_layout = 60"
  by (simp add: total_width_def CSCCGA_layout_def)

lemma slice_fields_CSCCGA:
  "slice_fields CSCCGA_layout 0 buf
     = coerce_all (map (\<lambda>(name, kind, lo, hi). (name, kind, py_slice buf lo hi)) CSCCGA_slices)"
  by (simp add: CSCCGA_layout_def CSCCGA_slices_def py_slice_def split: sum.splits)

lemma py_slice_take: "hi \<le> n \<Longrightarrow> py_slice (take n buf) lo hi = py_slice buf lo hi"
  by (simp add: py_slice_def drop_take min_def)

text \<open>
  C7. The eight widths of the CSCCGA layout add up to 60. A buffer shorter than 60
  bytes fails with \<open>TruncatedRecord\<close>. For a buffer of 60 bytes or more, the record is
  the coercion, in declaration order and by the kind of each field, of the slices at
  the cumulative offsets \<open>0, 18, 24, 31, 36, 43, 48, 55\<close>, and it is the record of the
  first 60 bytes alone: the bytes from offset 60 on are not read.
\<close>

theorem CSCCGAType_slices:
  "total_width CSCCGA_layout = 60
   \<and> (length buf < 60 \<longrightarrow> CSCCGAType buf = Inl TruncatedRecord)
   \<and> (60 \<le> length buf \<longrightarrow>
        CSCCGAType buf
          = coerce_all (map (\<lambda>(name, kind, lo, hi). (name, kind, py_slice buf lo hi)) CSCCGA_slices)
        \<and> CSCCGAType buf = CSCCGAType (take 60 buf))"
proof -
  have "py_slice (take 60 buf) lo hi = py_slice buf lo hi" if "hi \<le> 60" for lo hi
    using that by (rule py_slice_take)
  then have eq: "map (\<lambda>(name, kind, lo, hi). (name, kind, py_slice (take 60 buf) lo hi)) CSCCGA_slices
      = map (\<lambda>(name, kind, lo, hi). (name, kind, py_slice buf lo hi)) CSCCGA_slices"
    by (simp add: CSCCGA_slices_def)
  have short: "length buf < 60 \<longrightarrow> CSCCGAType buf = Inl TruncatedRecord"
    by (simp add: CSCCGAType_def deserialize_def total_width_CSCCGA)
  have long: "CSCCGAType b
      = coerce_all (map (\<lambda>(name, kind, lo, hi). (name, kind, py_slice b lo hi)) CSCCGA_slices)"
    if "60 \<le> length b" for b
    using that by (simp add: CSCCGAType_def deserialize_def total_width_CSCCGA slice_fields_CSCCGA)
  have "CSCCGAType buf = CSCCGAType (take 60 buf)" if "60 \<le> length buf"
  proof -
    have "60 \<le> length (take 60 buf)" using that by simp
    from long [OF this] long [OF that] show ?thesis by (simp only: eq)
  qed
  with short long [of buf] total_width_CSCCGA show ?thesis by blast
qed

text \<open>A buffer of 59 bytes is refused; a buffer of 60 bytes followed by \<open>tail\<close> gives the
  eight fields.\<close>

theorem CSCCGAType_slices_witness:
  "length (''SOURCE            SENSOR00000010000200000030000400000050000'') < 60
   \<and> CSCCGAType (''SOURCE            SENSOR00000010000200000030000400000050000'')
     = Inl TruncatedRecord
   \<and> 60 \<le> length (''SOURCE            SENSOR000000100002000000300004000000500006tail'')
   \<and> CSCCGAType (''SOURCE            SENSOR000000100002000000300004000000500006tail'')
     = Inr [(''CCG_SOURCE'', TreString ''SOURCE            ''),
            (''REG_SENSOR'', TreString ''SENSOR''),
            (''ORIGIN_LINE'', TreInt 1), (''ORIGIN_SAMPLE'', TreInt 2),
            (''AS_CELL_SIZE'', TreInt 3), (''CS_CELL_SIZE'', TreInt 4),
            (''CCG_MAX_LINE'', TreInt 5), (''CCG_MAX_SAMPLE'', TreInt 6)]
   \<and> CSCCGAType (''SOURCE            SENSOR000000100002000000300004000000500006tail'')
     = CSCCGAType (''SOURCE            SENSOR000000100002000000300004000000500006'')"
  using CSCCGAType_slices [of "''SOURCE            SENSOR00000010000200000030000400000050000''"]
    CSCCGAType_slices [of "''SOURCE            SENSOR000000100002000000300004000000500006tail''"]
  by (auto simp add: CSCCGA_slices_def py_slice_def coerce_def py_int_def py_strip_def is_space_def
      is_digit_def digit_val_def)

section \<open>Enumerated fields\<close>

text \<open>
  C8. For each of the six enumerated fields of \<open>ImageFormationType\<close> and the three of
  \<open>ProductDisplayType\<close>, a string outside the field's value set is refused with
  \<open>EnumViolation\<close> when assigned in strict mode; assigned in lenient mode it is
  stored, and the validity check of the node then returns invalid and reports the
  violation with the field's name and the string.
\<close>

theorem enum_assignment_not_silent:
  "((name, vals, getter, setter) \<in> set ImageFormationType_enum_fields \<and> s \<notin> set vals \<longrightarrow>
      assign_enum True (name, vals, getter, setter) self (Some s) = Inl EnumViolation
      \<and> (\<exists>self'. assign_enum False (name, vals, getter, setter) self (Some s) = Inr self'
            \<and> \<not> fst (ImageFormationType_basic_validity_check self' lg)
            \<and> EnumViolationOf name s
                \<in> set (snd (snd (ImageFormationType_basic_validity_check self' lg)))))
   \<and> ((pname, pvals, pgetter, psetter) \<in> set ProductDisplayType_enum_fields \<and> ps \<notin> set pvals \<longrightarrow>
      assign_enum True (pname, pvals, pgetter, psetter) pself (Some ps) = Inl EnumViolation
      \<and> (\<exists>self'. assign_enum False (pname, pvals, pgetter, psetter) pself (Some ps) = Inr self'
            \<and> \<not> fst (ProductDisplayType_basic_validity_check self' lg)
            \<and> EnumViolationOf pname ps
                \<in> set (snd (snd (ProductDisplayType_basic_validity_check self' lg)))))"
proof (intro conjI impI; (elim conjE)?)
  assume out: "s \<notin> set vals"
  show "assign_enum True (name, vals, getter, setter) self (Some s) = Inl EnumViolation"
    using out by (simp add: assign_enum_def StringEnumDescriptor_set_def)
next
  assume out: "ps \<notin> set pvals"
  show "assign_enum True (pname, pvals, pgetter, psetter) pself (Some ps) = Inl EnumViolation"
    using out by (simp add: assign_enum_def StringEnumDescriptor_set_def)
next
  assume mem: "(name, vals, getter, setter) \<in> set ImageFormationType_enum_fields"
    and out: "s \<notin> set vals"
  let ?n = "setter (Some s) self"
  have a: "assign_enum False (name, vals, getter, setter) self (Some s) = Inr ?n"
    using out by (simp add: assign_enum_def StringEnumDescriptor_set_def)
  have "(name, vals, Some s) \<in> set (enum_values_of ImageFormationType_enum_fields ?n)"
    using enum_values_of_mem [OF mem, of ?n] ImageFormationType_enum_get_set [OF mem] by simp
  note r = Serializable_reports_enum [OF this out, of ImageFormationType_schema
      "ImageFormationType_attrs ?n" lg]
  have "\<not> fst (ImageFormationType_basic_validity_check ?n lg)
        \<and> EnumViolationOf name s \<in> set (snd (snd (ImageFormationType_basic_validity_check ?n lg)))"
    using r by (auto simp: ImageFormationType_basic_validity_check_def split: prod.splits option.splits)
  with a show "\<exists>self'. assign_enum False (name, vals, getter, setter) self (Some s) = Inr self'
            \<and> \<not> fst (ImageFormationType_basic_validity_check self' lg)
            \<and> EnumViolationOf name s
                \<in> set (snd (snd (ImageFormationType_basic_validity_check self' lg)))"
    by blast
next
  assume mem: "(pname, pvals, pgetter, psetter) \<in> set ProductDisplayType_enum_fields"
    and out: "ps \<notin> set pvals"
  let ?n = "psetter (Some ps) pself"
  have a: "assign_enum False (pname, pvals, pgetter, psetter) pself (Some ps) = Inr ?n"
    using out by (simp add: assign_enum_def StringEnumDescriptor_set_def)
  have "(pname, pvals, Some ps) \<in> set (enum_values_of ProductDisplayType_enum_fields ?n)"
    using enum_values_of_mem [OF mem, of ?n] ProductDisplayType_enum_get_set [OF mem] by simp
  note r = Serializable_reports_enum [OF this out, of ProductDisplayType_schema
      "ProductDisplayType_attrs ?n" lg]
  have "\<not> fst (ProductDisplayType_basic_validity_check ?n lg)
        \<and> EnumViolationOf pname ps \<in> set (snd (snd (ProductDisplayType_basic_validity_check ?n lg)))"
    using r by (auto simp: ProductDisplayType_basic_validity_check_def split: prod.splits)
  with a show "\<exists>self'. assign_enum False (pname, pvals, pgetter, psetter) pself (Some ps) = Inr self'
            \<and> \<not> fst (ProductDisplayType_basic_validity_check self' lg)
            \<and> EnumViolationOf pname ps
                \<in> set (snd (snd (ProductDisplayType_basic_validity_check self' lg)))"
    by blast
qed

text \<open>The polarization \<open>X:Y\<close> for \<open>TxRcvPolarizationProc\<close> and the pixel type
  \<open>RGB48I\<close> for \<open>PixelType\<close>, on nodes with no other field set.\<close>

theorem enum_assignment_not_silent_witness:
  "(''TxRcvPolarizationProc'', DUAL_POLARIZATION_VALUES, TxRcvPolarizationProc,
      \<lambda>v self. self\<lparr>TxRcvPolarizationProc := v\<rparr>) \<in> set ImageFormationType_enum_fields
   \<and> ''X:Y'' \<notin> set DUAL_POLARIZATION_VALUES
   \<and> assign_enum True (''TxRcvPolarizationProc'', DUAL_POLARIZATION_VALUES, TxRcvPolarizationProc,
        \<lambda>v self. self\<lparr>TxRcvPolarizationProc := v\<rparr>) ImageFormationType_empty (Some ''X:Y'')
     = Inl EnumViolation
   \<and> assign_enum False (''TxRcvPolarizationProc'', DUAL_POLARIZATION_VALUES, TxRcvPolarizationProc,
        \<lambda>v self. self\<lparr>TxRcvPolarizationProc := v\<rparr>) ImageFormationType_empty (Some ''X:Y'')
     = Inr (ImageFormationType_empty\<lparr>TxRcvPolarizationProc := Some ''X:Y''\<rparr>)
   \<and> EnumViolationOf ''TxRcvPolarizationProc'' ''X:Y''
       \<in> set (snd (snd (ImageFormationType_basic_validity_check
            (ImageFormationType_empty\<lparr>TxRcvPolarizationProc := Some ''X:Y''\<rparr>) [])))
   \<and> (''PixelType'', [''MONO8I'', ''MONO8LU'', ''MONO16I'', ''RGBL8U'', ''RGB24I''], PixelType,
        \<lambda>v self. self\<lparr>PixelType := v\<rparr>) \<in> set ProductDisplayType_enum_fields
   \<and> ''RGB48I'' \<notin> set [''MONO8I'', ''MONO8LU'', ''MONO16I'', ''RGBL8U'', ''RGB24I'']
   \<and> assign_enum True (''PixelType'', [''MONO8I'', ''MONO8LU'', ''MONO16I'', ''RGBL8U'', ''RGB24I''],
        PixelType, \<lambda>v self. self\<lparr>PixelType := v\<rparr>) ProductDisplayType_empty (Some ''RGB48I'')
     = Inl EnumViolation
   \<and> EnumViolationOf ''PixelType'' ''RGB48I''
       \<in> set (snd (snd (ProductDisplayType_basic_validity_check
            (ProductDisplayType_empty\<lparr>PixelType := Some ''RGB48I''\<rparr>) [])))"
proof -
  have m1: "(''TxRcvPolarizationProc'', DUAL_POLARIZATION_VALUES, TxRcvPolarizationProc,
      \<lambda>v self. self\<lparr>TxRcvPolarizationProc := v\<rparr>) \<in> set ImageFormationType_enum_fields"
    by (simp add: ImageFormationType_enum_fields_def)
  have o1: "''X:Y'' \<notin> set DUAL_POLARIZATION_VALUES"
    by (simp add: DUAL_POLARIZATION_VALUES_def)
  have m2: "(''PixelType'', [''MONO8I'', ''MONO8LU'', ''MONO16I'', ''RGBL8U'', ''RGB24I''], PixelType,
        \<lambda>v self. self\<lparr>PixelType := v\<rparr>) \<in> set ProductDisplayType_enum_fields"
    by (simp add: ProductDisplayType_enum_fields_def)
  have o2: "''RGB48I'' \<notin> set [''MONO8I'', ''MONO8LU'', ''MONO16I'', ''RGBL8U'', ''RGB24I'']"
    by simp
  note w = enum_assignment_not_silent
      [of "''TxRcvPolarizationProc''" DUAL_POLARIZATION_VALUES TxRcvPolarizationProc
          "\<lambda>v self. self\<lparr>TxRcvPolarizationProc := v\<rparr>" "''X:Y''" ImageFormationType_empty "[]"
          "''PixelType''" "[''MONO8I'', ''MONO8LU'', ''MONO16I'', ''RGBL8U'', ''RGB24I'']" PixelType
          "\<lambda>v self. self\<lparr>PixelType := v\<rparr>" "''RGB48I''" ProductDisplayType_empty]
  have a1: "assign_enum False (''TxRcvPolarizationProc'', DUAL_POLARIZATION_VALUES, TxRcvPolarizationProc,
        \<lambda>v self. self\<lparr>TxRcvPolarizationProc := v\<rparr>) ImageFormationType_empty (Some ''X:Y'')
     = Inr (ImageFormationType_empty\<lparr>TxRcvPolarizationProc := Some ''X:Y''\<rparr>)"
    using o1 by (simp add: assign_enum_def StringEnumDescriptor_set_def)
  have a2: "assign_enum False (''PixelType'', [''MONO8I'', ''MONO8LU'', ''MONO16I'', ''RGBL8U'', ''RGB24I''],
        PixelType, \<lambda>v self. self\<lparr>PixelType := v\<rparr>) ProductDisplayType_empty (Some ''RGB48I'')
     = Inr (ProductDisplayType_empty\<lparr>PixelType := Some ''RGB48I''\<rparr>)"
    by (simp add: assign_enum_def StringEnumDescriptor_set_def)
  from w m1 o1 m2 o2 a1 a2 show ?thesis by auto
qed

end
